theory Spec2Isabelle
  imports Main "HOL-Library.AList"
begin

section \<open>JavaScript values\<close>

text \<open>
  The offline subsystem of tiko-events is TypeScript that runs in the browser. Values typed
  \<^verbatim>\<open>any\<close> (request payloads, server responses) are JSON documents. Numbers are
  integers here: every number the modelled code computes with is a millisecond timestamp,
  a counter or an HTTP status.
\<close>

datatype json =
    JNull
  | JBool bool
  | JNum int
  | JStr string
  | JArr "json list"
  | JObj "(string \<times> json) list"

type_synonym obj = "(string \<times> json) list"

text \<open>Truthiness of a value, as \<^verbatim>\<open>if (v)\<close> and \<^verbatim>\<open>v || d\<close> test it.\<close>

fun truthy :: "json \<Rightarrow> bool" where
  "truthy JNull = False"
| "truthy (JBool b) = b"
| "truthy (JNum n) = (n \<noteq> 0)"
| "truthy (JStr s) = (s \<noteq> [])"
| "truthy (JArr _) = True"
| "truthy (JObj _) = True"

text \<open>
  \<^verbatim>\<open>v.k\<close>: reading a property of \<^verbatim>\<open>null\<close> throws a TypeError; on every other
  value a property that is not there reads as \<^verbatim>\<open>undefined\<close> (\<open>None\<close>). Only properties
  of JSON objects are read by name in the modelled code.
\<close>

datatype js_error =
    TypeError
  | DataError
  | ConstraintError
  | NetworkFailure string
  | HttpError string
  | SyntaxError string
  | StorageError string
  | VersionError

fun get_prop :: "json \<Rightarrow> string \<Rightarrow> js_error + json option" where
  "get_prop JNull k = Inl TypeError"
| "get_prop (JObj kvs) k = Inr (map_of kvs k)"
| "get_prop _ k = Inr None"

fun truthy_opt :: "json option \<Rightarrow> bool" where
  "truthy_opt None = False"
| "truthy_opt (Some v) = truthy v"

text \<open>Setting a property: an existing key keeps its place, a new key is appended.\<close>

fun obj_set :: "string \<Rightarrow> json \<Rightarrow> obj \<Rightarrow> obj" where
  "obj_set k v [] = [(k, v)]"
| "obj_set k v ((k', v') # kvs) =
     (if k' = k then (k, v) # kvs else (k', v') # obj_set k v kvs)"

text \<open>Decimal digits of a number, for \<^verbatim>\<open>n.toString()\<close> and template strings.\<close>

definition digit_char :: "nat \<Rightarrow> char" where
  "digit_char d = char_of (48 + d)"

fun string_of_nat :: "nat \<Rightarrow> string" where
  "string_of_nat n =
     (if n < 10 then [digit_char n] else string_of_nat (n div 10) @ [digit_char (n mod 10)])"

declare string_of_nat.simps [simp del]

definition string_of_int :: "int \<Rightarrow> string" where
  "string_of_int i = (if i < 0 then CHR ''-'' # string_of_nat (nat (- i)) else string_of_nat (nat i))"

text \<open>\<^verbatim>\<open>s.includes(p)\<close>: \<open>p\<close> occurs in \<open>s\<close> as a contiguous run.\<close>

definition starts_with :: "string \<Rightarrow> string \<Rightarrow> bool" where
  "starts_with s p = (take (length p) s = p)"

fun str_includes :: "string \<Rightarrow> string \<Rightarrow> bool" where
  "str_includes [] p = (p = [])"
| "str_includes (c # cs) p = (starts_with (c # cs) p \<or> str_includes cs p)"

text \<open>
  \<^verbatim>\<open>xs[i]\<close> on an array: an index outside the array reads as \<^verbatim>\<open>undefined\<close>.
\<close>

definition js_index :: "'a list \<Rightarrow> int \<Rightarrow> 'a option" where
  "js_index xs i = (if 0 \<le> i \<and> i < int (length xs) then Some (xs ! nat i) else None)"

text \<open>
  Object spread \<^verbatim>\<open>{...v}\<close> copies the own enumerable properties of \<open>v\<close>: the fields of
  an object, the indexed elements of an array or string, nothing for the other values.
\<close>

fun indexed :: "nat \<Rightarrow> json list \<Rightarrow> obj" where
  "indexed i [] = []"
| "indexed i (v # vs) = (string_of_nat i, v) # indexed (Suc i) vs"

fun spread :: "json \<Rightarrow> obj" where
  "spread (JObj kvs) = kvs"
| "spread (JArr vs) = indexed 0 vs"
| "spread (JStr s) = indexed 0 (map (\<lambda>c. JStr [c]) s)"
| "spread _ = []"

section \<open>The durable store (offline-storage.ts)\<close>

text \<open>
  \<^verbatim>\<open>OfflineStorage\<close> wraps one IndexedDB database. An object store is modelled as the
  list of its (primary key, record) pairs. IndexedDB keys are typed: a number and a string
  are never the same key, whatever their digits. A store with key path \<^verbatim>\<open>id\<close> takes the
  key from the record's \<^verbatim>\<open>id\<close> property and refuses a record without a valid one
  (DataError). The order in which \<^verbatim>\<open>getAll\<close> lists the records of a store with
  generated keys is the order of insertion; for the other stores no modelled code depends
  on the order.
\<close>

datatype idb_key = KNum int | KStr string | KArr "idb_key list"

fun key_of_json :: "json \<Rightarrow> idb_key option" where
  "key_of_json (JNum n) = Some (KNum n)"
| "key_of_json (JStr s) = Some (KStr s)"
| "key_of_json (JArr vs) =
     (if list_all (\<lambda>v. key_of_json v \<noteq> None) vs
      then Some (KArr (map (\<lambda>v. case key_of_json v of Some k \<Rightarrow> k | None \<Rightarrow> KNum 0) vs))
      else None)"
| "key_of_json _ = None"

fun key_of_prop :: "json option \<Rightarrow> idb_key option" where
  "key_of_prop None = None"
| "key_of_prop (Some v) = key_of_json v"

datatype sync_status = Synced | Pending | Failed

text \<open>
  \<^verbatim>\<open>StoredEvent\<close>, \<^verbatim>\<open>StoredOrder\<close>, \<^verbatim>\<open>StoredTicket\<close>: the server's document with
  the two fields the store adds. \<open>doc\<close> holds the document's other properties.
\<close>

record stored_doc =
  doc :: obj
  cachedAt :: int
  syncStatus :: sync_status

text \<open>\<^verbatim>\<open>FailedRequest\<close> without its \<^verbatim>\<open>id\<close>, which is the key it is stored under.
  \<open>fr_body\<close> is the JSON document the body text denotes.\<close>

record FailedRequest =
  fr_url :: string
  fr_method :: string
  fr_headers :: "(string \<times> string) list"
  fr_body :: "json option"
  fr_timestamp :: int
  fr_retryCount :: int
  fr_maxRetries :: int

text \<open>\<^verbatim>\<open>Partial<FailedRequest>\<close>: every field optional.\<close>

record FailedRequest_partial =
  pu_url :: "string option"
  pu_method :: "string option"
  pu_headers :: "(string \<times> string) list option"
  pu_body :: "json option option"
  pu_timestamp :: "int option"
  pu_retryCount :: "int option"
  pu_maxRetries :: "int option"

record UserPreference =
  pref_value :: json
  pref_timestamp :: int

record OfflineStorage =
  events :: "(idb_key \<times> stored_doc) list"
  orders :: "(idb_key \<times> stored_doc) list"
  tickets :: "(idb_key \<times> stored_doc) list"
  failedRequests :: "(int \<times> FailedRequest) list"
  nextRequestId :: int
  userPreferences :: "(string \<times> UserPreference) list"
  cartItems :: "(idb_key \<times> obj) list"

text \<open>The database as \<^verbatim>\<open>createStores\<close> leaves it: every store empty, the key generator
  of \<^verbatim>\<open>failed-requests\<close> at 1.\<close>

definition emptyStorage :: OfflineStorage where
  "emptyStorage = \<lparr>events = [], orders = [], tickets = [], failedRequests = [],
     nextRequestId = 1, userPreferences = [], cartItems = []\<rparr>"

subsection \<open>Cached documents\<close>

text \<open>
  \<^verbatim>\<open>{...event, cachedAt: Date.now(), syncStatus: 'synced'}\<close>, and the record read back
  as one object.
\<close>

definition strip_store_fields :: "obj \<Rightarrow> obj" where
  "strip_store_fields kvs = filter (\<lambda>(k, v). k \<noteq> ''cachedAt'' \<and> k \<noteq> ''syncStatus'') kvs"

definition make_stored :: "json \<Rightarrow> int \<Rightarrow> stored_doc" where
  "make_stored v now = \<lparr>doc = strip_store_fields (spread v), cachedAt = now, syncStatus = Synced\<rparr>"

fun status_name :: "sync_status \<Rightarrow> string" where
  "status_name Synced = ''synced''"
| "status_name Pending = ''pending''"
| "status_name Failed = ''failed''"

definition json_of_stored :: "stored_doc \<Rightarrow> json" where
  "json_of_stored d =
     JObj (doc d @ [(''cachedAt'', JNum (cachedAt d)), (''syncStatus'', JStr (status_name (syncStatus d)))])"

text \<open>\<^verbatim>\<open>put\<close> on a store with key path \<^verbatim>\<open>id\<close> and no key generator.\<close>

definition put_doc ::
  "stored_doc \<Rightarrow> (idb_key \<times> stored_doc) list \<Rightarrow> js_error + (idb_key \<times> stored_doc) list" where
  "put_doc d st =
     (case key_of_prop (map_of (doc d) ''id'') of
        None \<Rightarrow> Inl DataError
      | Some k \<Rightarrow> Inr (AList.update k d st))"

text \<open>
  The \<^verbatim>\<open>orders\<close> store has a unique index on \<^verbatim>\<open>orderNumber\<close>: a record whose order
  number is already held by a record under another key is refused (ConstraintError).
\<close>

definition orderNumber_taken :: "idb_key \<Rightarrow> stored_doc \<Rightarrow> (idb_key \<times> stored_doc) list \<Rightarrow> bool" where
  "orderNumber_taken k d st =
     (case key_of_prop (map_of (doc d) ''orderNumber'') of
        None \<Rightarrow> False
      | Some n \<Rightarrow> list_ex (\<lambda>(k', d'). k' \<noteq> k \<and> key_of_prop (map_of (doc d') ''orderNumber'') = Some n) st)"

definition put_order ::
  "stored_doc \<Rightarrow> (idb_key \<times> stored_doc) list \<Rightarrow> js_error + (idb_key \<times> stored_doc) list" where
  "put_order d st =
     (case key_of_prop (map_of (doc d) ''id'') of
        None \<Rightarrow> Inl DataError
      | Some k \<Rightarrow> if orderNumber_taken k d st then Inl ConstraintError else Inr (AList.update k d st))"

definition cacheEvent :: "int \<Rightarrow> json \<Rightarrow> OfflineStorage \<Rightarrow> js_error + OfflineStorage" where
  "cacheEvent now event s =
     (case put_doc (make_stored event now) (events s) of
        Inl e \<Rightarrow> Inl e
      | Inr es \<Rightarrow> Inr (s\<lparr>events := es\<rparr>))"

definition getCachedEvents :: "OfflineStorage \<Rightarrow> (idb_key \<times> stored_doc) list" where
  "getCachedEvents s = events s"

definition cacheOrder :: "int \<Rightarrow> json \<Rightarrow> OfflineStorage \<Rightarrow> js_error + OfflineStorage" where
  "cacheOrder now order s =
     (case put_order (make_stored order now) (orders s) of
        Inl e \<Rightarrow> Inl e
      | Inr os \<Rightarrow> Inr (s\<lparr>orders := os\<rparr>))"

definition cacheTicket :: "int \<Rightarrow> json \<Rightarrow> OfflineStorage \<Rightarrow> js_error + OfflineStorage" where
  "cacheTicket now ticket s =
     (case put_doc (make_stored ticket now) (tickets s) of
        Inl e \<Rightarrow> Inl e
      | Inr ts \<Rightarrow> Inr (s\<lparr>tickets := ts\<rparr>))"

text \<open>\<^verbatim>\<open>get('orders', key)\<close>: a value that is no valid key is refused (DataError).\<close>

definition get_order :: "json option \<Rightarrow> OfflineStorage \<Rightarrow> js_error + stored_doc option" where
  "get_order key s =
     (case key_of_prop key of
        None \<Rightarrow> Inl DataError
      | Some k \<Rightarrow> Inr (map_of (orders s) k))"

text \<open>\<^verbatim>\<open>markForSync('events', id)\<close>: the one writer of \<^verbatim>\<open>syncStatus = 'pending'\<close> on
  a cached document.\<close>

definition markForSync_events :: "string \<Rightarrow> OfflineStorage \<Rightarrow> OfflineStorage" where
  "markForSync_events ident s =
     (case map_of (events s) (KStr ident) of
        None \<Rightarrow> s
      | Some item \<Rightarrow> s\<lparr>events := AList.update (KStr ident) (item\<lparr>syncStatus := Pending\<rparr>) (events s)\<rparr>)"

subsection \<open>The durable queue: failed requests\<close>

text \<open>
  \<^verbatim>\<open>addFailedRequest\<close>: the request is spread first, then \<^verbatim>\<open>retryCount: 0\<close> and
  \<^verbatim>\<open>maxRetries: 3\<close> are written over it. The store generates the key.
\<close>

definition addFailedRequest :: "FailedRequest \<Rightarrow> OfflineStorage \<Rightarrow> OfflineStorage" where
  "addFailedRequest request s =
     (let failedRequest = request\<lparr>fr_retryCount := 0, fr_maxRetries := 3\<rparr>
      in s\<lparr>failedRequests := failedRequests s @ [(nextRequestId s, failedRequest)],
           nextRequestId := nextRequestId s + 1\<rparr>)"

definition getFailedRequests :: "OfflineStorage \<Rightarrow> (int \<times> FailedRequest) list" where
  "getFailedRequests s = failedRequests s"

text \<open>\<^verbatim>\<open>get\<close> and \<^verbatim>\<open>delete\<close> on \<^verbatim>\<open>failed-requests\<close>, by an IndexedDB key of any type.
  The records are stored under numbers.\<close>

definition delete_failed :: "idb_key \<Rightarrow> OfflineStorage \<Rightarrow> OfflineStorage" where
  "delete_failed key s = s\<lparr>failedRequests := filter (\<lambda>(k, r). KNum k \<noteq> key) (failedRequests s)\<rparr>"

definition merge_partial :: "FailedRequest \<Rightarrow> FailedRequest_partial \<Rightarrow> FailedRequest" where
  "merge_partial existing updates =
     \<lparr>fr_url = (case pu_url updates of Some v \<Rightarrow> v | None \<Rightarrow> fr_url existing),
      fr_method = (case pu_method updates of Some v \<Rightarrow> v | None \<Rightarrow> fr_method existing),
      fr_headers = (case pu_headers updates of Some v \<Rightarrow> v | None \<Rightarrow> fr_headers existing),
      fr_body = (case pu_body updates of Some v \<Rightarrow> v | None \<Rightarrow> fr_body existing),
      fr_timestamp = (case pu_timestamp updates of Some v \<Rightarrow> v | None \<Rightarrow> fr_timestamp existing),
      fr_retryCount = (case pu_retryCount updates of Some v \<Rightarrow> v | None \<Rightarrow> fr_retryCount existing),
      fr_maxRetries = (case pu_maxRetries updates of Some v \<Rightarrow> v | None \<Rightarrow> fr_maxRetries existing)\<rparr>"

text \<open>
  \<^verbatim>\<open>updateFailedRequest(id, updates)\<close> reads with \<^verbatim>\<open>id.toString()\<close> and writes
  \<^verbatim>\<open>{...existing, ...updates}\<close> back; the record read carries its numeric \<^verbatim>\<open>id\<close>, so
  the write replaces it. \<^verbatim>\<open>removeFailedRequest(id)\<close> deletes with \<^verbatim>\<open>id.toString()\<close>.
\<close>

definition get_failed_entry :: "idb_key \<Rightarrow> OfflineStorage \<Rightarrow> (int \<times> FailedRequest) option" where
  "get_failed_entry key s = find (\<lambda>(k, r). KNum k = key) (failedRequests s)"

definition updateFailedRequest :: "int \<Rightarrow> FailedRequest_partial \<Rightarrow> OfflineStorage \<Rightarrow> OfflineStorage" where
  "updateFailedRequest ident updates s =
     (case get_failed_entry (KStr (string_of_int ident)) s of
        None \<Rightarrow> s
      | Some (k, existing) \<Rightarrow>
          s\<lparr>failedRequests := AList.update k (merge_partial existing updates) (failedRequests s)\<rparr>)"

definition removeFailedRequest :: "int \<Rightarrow> OfflineStorage \<Rightarrow> OfflineStorage" where
  "removeFailedRequest ident s = delete_failed (KStr (string_of_int ident)) s"

subsection \<open>Preferences and the offline cart\<close>

definition setUserPreference :: "int \<Rightarrow> string \<Rightarrow> json \<Rightarrow> OfflineStorage \<Rightarrow> OfflineStorage" where
  "setUserPreference now k v s =
     s\<lparr>userPreferences := AList.update k \<lparr>pref_value = v, pref_timestamp = now\<rparr> (userPreferences s)\<rparr>"

definition getUserPreference :: "string \<Rightarrow> OfflineStorage \<Rightarrow> json option" where
  "getUserPreference k s = map_option pref_value (map_of (userPreferences s) k)"

text \<open>
  \<^verbatim>\<open>addToOfflineCart\<close>: the fresh id is \<^verbatim>\<open>cart-<now>-<random suffix>\<close>; the suffix
  \<open>rnd\<close> is what \<^verbatim>\<open>Math.random().toString(36).substr(2, 9)\<close> gave.
\<close>

definition addToOfflineCart :: "int \<Rightarrow> string \<Rightarrow> json \<Rightarrow> OfflineStorage \<Rightarrow> OfflineStorage" where
  "addToOfflineCart now rnd item s =
     (let ident = ''cart-'' @ string_of_int now @ ''-'' @ rnd;
          cartItem = obj_set ''syncStatus'' (JStr ''pending'')
                       (obj_set ''timestamp'' (JNum now)
                          (obj_set ''id'' (JStr ident) (spread item)))
      in s\<lparr>cartItems := AList.update (KStr ident) cartItem (cartItems s)\<rparr>)"

subsection \<open>The eviction sweep\<close>

text \<open>
  \<^verbatim>\<open>clearExpiredCache(maxAge = 7 * 24 * 60 * 60 * 1000)\<close> at time \<open>now\<close>. The first loop
  deletes events by their own key, the second calls \<^verbatim>\<open>removeFailedRequest\<close> on the
  requests it selects. Orders and tickets are not visited.
\<close>

definition defaultMaxAge :: int where
  "defaultMaxAge = 7 * 24 * 60 * 60 * 1000"

definition sweep_event :: "int \<Rightarrow> (idb_key \<times> stored_doc) \<Rightarrow> OfflineStorage \<Rightarrow> OfflineStorage" where
  "sweep_event cutoff event s =
     (if cachedAt (snd event) < cutoff then s\<lparr>events := AList.delete (fst event) (events s)\<rparr> else s)"

definition sweep_request :: "int \<Rightarrow> (int \<times> FailedRequest) \<Rightarrow> OfflineStorage \<Rightarrow> OfflineStorage" where
  "sweep_request cutoff request s =
     (if fr_timestamp (snd request) < cutoff \<or> fr_retryCount (snd request) \<ge> fr_maxRetries (snd request)
      then removeFailedRequest (fst request) s else s)"

definition clearExpiredCache :: "int \<Rightarrow> int \<Rightarrow> OfflineStorage \<Rightarrow> OfflineStorage" where
  "clearExpiredCache now maxAge s =
     (let cutoff = now - maxAge;
          s1 = fold (sweep_event cutoff) (getCachedEvents s) s;
          s2 = fold (sweep_request cutoff) (getFailedRequests s1) s1
      in s2)"

section \<open>Sync operations (background-sync.ts)\<close>

datatype op_type = Order | Payment | Ticket | Cart | UserPreference

datatype op_action = Create | Update | Delete

datatype op_priority = High | Medium | Low

record SyncOperation =
  op_id :: string
  optype :: op_type
  action :: op_action
  opdata :: json
  endpoint :: string
  http_method :: string
  priority :: op_priority
  retryCount :: int
  maxRetries :: int
  timestamp :: int
  userId :: "string option"

subsection \<open>The order of a drain pass\<close>

text \<open>
  \<^verbatim>\<open>const priorityOrder = { high: 3, medium: 2, low: 1 }\<close> and the comparator handed to
  \<^verbatim>\<open>Array.prototype.sort\<close> in \<^verbatim>\<open>performSync\<close>.
\<close>

fun priorityOrder :: "op_priority \<Rightarrow> int" where
  "priorityOrder High = 3"
| "priorityOrder Medium = 2"
| "priorityOrder Low = 1"

definition compareOps :: "SyncOperation \<Rightarrow> SyncOperation \<Rightarrow> int" where
  "compareOps a b =
     (let priorityDiff = priorityOrder (priority b) - priorityOrder (priority a)
      in if priorityDiff \<noteq> 0 then priorityDiff else timestamp a - timestamp b)"

text \<open>
  \<^verbatim>\<open>Array.prototype.sort\<close> is stable: elements the comparator does not separate keep
  their order. A stable sort by a consistent comparator has one possible result, computed
  here by insertion from the right.
\<close>

fun insort_cmp :: "('a \<Rightarrow> 'a \<Rightarrow> int) \<Rightarrow> 'a \<Rightarrow> 'a list \<Rightarrow> 'a list" where
  "insort_cmp cmp x [] = [x]"
| "insort_cmp cmp x (y # ys) = (if cmp x y \<le> 0 then x # y # ys else y # insort_cmp cmp x ys)"

fun js_sort :: "('a \<Rightarrow> 'a \<Rightarrow> int) \<Rightarrow> 'a list \<Rightarrow> 'a list" where
  "js_sort cmp [] = []"
| "js_sort cmp (x # xs) = insort_cmp cmp x (js_sort cmp xs)"


section \<open>The sync queue manager (background-sync.ts)\<close>

subsection \<open>The world outside\<close>

text \<open>
  What \<^verbatim>\<open>fetch\<close> does with a request: it rejects (a network error with its message),
  or it resolves to a response with a status, a status text and a body, which
  \<^verbatim>\<open>response.json()\<close> parses (\<open>Inr\<close>) or refuses with a message (\<open>Inl\<close>).
\<close>

datatype fetch_result =
    Rejected string
  | Responded int string "string + json"

text \<open>
  The environment of a run: the answer to the request sent as the \<open>n\<close>-th (counting from 0)
  for an operation, and what \<^verbatim>\<open>Date.now()\<close> and the random suffix of a cart id are
  once \<open>n\<close> requests have been sent.
\<close>

record env =
  fetch :: "nat \<Rightarrow> SyncOperation \<Rightarrow> fetch_result"
  clock :: "nat \<Rightarrow> int"
  random :: "nat \<Rightarrow> string"

subsection \<open>The manager's state\<close>

text \<open>
  \<^verbatim>\<open>syncQueue\<close> and the \<^verbatim>\<open>sortedQueue\<close> of a drain pass hold references to the same
  operation objects, and \<^verbatim>\<open>operation.retryCount++\<close> writes through the reference. The
  objects live in \<open>heap\<close>; the queues are lists of addresses. \<open>sent\<close> logs every request
  handed to \<^verbatim>\<open>fetch\<close> (the operation as it was then), \<open>timers\<close> the delays of the
  \<^verbatim>\<open>setTimeout\<close> calls of \<^verbatim>\<open>scheduleSync\<close>, \<open>dispatched\<close> the events of
  \<^verbatim>\<open>notifyApp\<close>. \<open>online\<close> is \<^verbatim>\<open>navigator.onLine\<close>.
\<close>

record SyncResult =
  sr_success :: bool
  sr_operation :: nat
  sr_error :: "string option"
  sr_response :: "json option"

datatype app_event =
    SYNC_SUCCESS SyncOperation SyncResult
  | SYNC_FAILED SyncOperation "string option"

record BackgroundSyncManager =
  heap :: "nat \<Rightarrow> SyncOperation"
  nextRef :: nat
  syncQueue :: "nat list"
  syncInProgress :: bool
  online :: bool
  storage :: OfflineStorage
  sent :: "SyncOperation list"
  timers :: "int list"
  dispatched :: "app_event list"

definition retryDelays :: "int list" where
  "retryDelays = [1000, 5000, 15000, 30000, 60000]"

text \<open>\<^verbatim>\<open>scheduleSync(delay = 0)\<close>: an \<^verbatim>\<open>undefined\<close> argument takes the default.\<close>

definition scheduleSync :: "int option \<Rightarrow> BackgroundSyncManager \<Rightarrow> BackgroundSyncManager" where
  "scheduleSync delay st = st\<lparr>timers := timers st @ [case delay of None \<Rightarrow> 0 | Some d \<Rightarrow> d]\<rparr>"

definition notifyApp :: "app_event \<Rightarrow> BackgroundSyncManager \<Rightarrow> BackgroundSyncManager" where
  "notifyApp ev st = st\<lparr>dispatched := dispatched st @ [ev]\<rparr>"

subsection \<open>Enqueueing\<close>

definition storePendingOperation :: "SyncOperation \<Rightarrow> OfflineStorage \<Rightarrow> OfflineStorage" where
  "storePendingOperation operation s =
     (let failedRequest =
            \<lparr>fr_url = endpoint operation,
             fr_method = http_method operation,
             fr_headers = [(''Content-Type'', ''application/json'')],
             fr_body = (if truthy (opdata operation) then Some (opdata operation) else None),
             fr_timestamp = timestamp operation,
             fr_retryCount = retryCount operation,
             fr_maxRetries = maxRetries operation\<rparr>
      in addFailedRequest failedRequest s)"

text \<open>
  \<^verbatim>\<open>addOperation\<close> at time \<open>now\<close>, with random suffix \<open>rnd\<close>. The caller's record gives
  every field but \<^verbatim>\<open>id\<close>, \<^verbatim>\<open>timestamp\<close> and \<^verbatim>\<open>retryCount\<close>, which are set here.
\<close>

definition addOperation ::
  "int \<Rightarrow> string \<Rightarrow> SyncOperation \<Rightarrow> BackgroundSyncManager \<Rightarrow> BackgroundSyncManager" where
  "addOperation now rnd operation st =
     (let syncOperation = operation\<lparr>op_id := ''sync-'' @ string_of_int now @ ''-'' @ rnd,
                                     timestamp := now, retryCount := 0\<rparr>;
          r = nextRef st;
          st1 = st\<lparr>heap := (heap st)(r := syncOperation), nextRef := Suc r,
                   syncQueue := syncQueue st @ [r]\<rparr>;
          st2 = st1\<lparr>storage := storePendingOperation syncOperation (storage st1)\<rparr>
      in if online st2 \<and> \<not> syncInProgress st2 then scheduleSync None st2 else st2)"

definition blankOperation :: SyncOperation where
  "blankOperation = \<lparr>op_id = [], optype = Order, action = Create, opdata = JNull, endpoint = [],
     http_method = [], priority = Low, retryCount = 0, maxRetries = 0, timestamp = 0, userId = None\<rparr>"

definition queueOrderCreation ::
  "int \<Rightarrow> string \<Rightarrow> json \<Rightarrow> BackgroundSyncManager \<Rightarrow> BackgroundSyncManager" where
  "queueOrderCreation now rnd orderData st =
     addOperation now rnd
       (blankOperation\<lparr>optype := Order, action := Create, opdata := orderData,
          endpoint := ''/api/orders/create'', http_method := ''POST'', priority := High,
          maxRetries := 5\<rparr>) st"

definition queuePayment ::
  "int \<Rightarrow> string \<Rightarrow> json \<Rightarrow> BackgroundSyncManager \<Rightarrow> BackgroundSyncManager" where
  "queuePayment now rnd paymentData st =
     addOperation now rnd
       (blankOperation\<lparr>optype := Payment, action := Create, opdata := paymentData,
          endpoint := ''/api/payments'', http_method := ''POST'', priority := High,
          maxRetries := 5\<rparr>) st"

definition queueCartUpdate ::
  "int \<Rightarrow> string \<Rightarrow> json \<Rightarrow> BackgroundSyncManager \<Rightarrow> BackgroundSyncManager" where
  "queueCartUpdate now rnd cartData st =
     addOperation now rnd
       (blankOperation\<lparr>optype := Cart, action := Update, opdata := cartData,
          endpoint := ''/api/orders/cart'', http_method := ''PUT'', priority := Medium,
          maxRetries := 3\<rparr>) st"

definition queueTicketUpdate ::
  "int \<Rightarrow> string \<Rightarrow> string \<Rightarrow> json \<Rightarrow> BackgroundSyncManager \<Rightarrow> BackgroundSyncManager" where
  "queueTicketUpdate now rnd ticketId updateData st =
     addOperation now rnd
       (blankOperation\<lparr>optype := Ticket, action := Update, opdata := updateData,
          endpoint := ''/api/tickets/'' @ ticketId, http_method := ''PATCH'', priority := Medium,
          maxRetries := 3\<rparr>) st"

definition queueUserPreferencesUpdate ::
  "int \<Rightarrow> string \<Rightarrow> json \<Rightarrow> BackgroundSyncManager \<Rightarrow> BackgroundSyncManager" where
  "queueUserPreferencesUpdate now rnd preferences st =
     addOperation now rnd
       (blankOperation\<lparr>optype := UserPreference, action := Update, opdata := preferences,
          endpoint := ''/api/users/preferences'', http_method := ''PATCH'', priority := Low,
          maxRetries := 2\<rparr>) st"

subsection \<open>Loading the queue from the store\<close>

text \<open>
  \<^verbatim>\<open>inferOperationType\<close>, \<^verbatim>\<open>inferAction\<close> and \<^verbatim>\<open>inferPriority\<close>.
  \<^verbatim>\<open>toUpperCase\<close> is modelled on the letters a to z, which is all an HTTP method has.
\<close>

definition to_upper :: "char \<Rightarrow> char" where
  "to_upper c =
     (let n = (of_char c :: nat) in if 97 \<le> n \<and> n \<le> 122 then char_of (n - 32) else c)"

definition inferOperationType :: "string \<Rightarrow> op_type" where
  "inferOperationType url =
     (if str_includes url ''/orders'' then Order
      else if str_includes url ''/payments'' then Payment
      else if str_includes url ''/tickets'' then Ticket
      else if str_includes url ''/cart'' then Cart
      else if str_includes url ''/users'' \<or> str_includes url ''/profile'' then UserPreference
      else Order)"

definition inferAction :: "string \<Rightarrow> op_action" where
  "inferAction m =
     (let u = map to_upper m
      in if u = ''POST'' then Create
         else if u = ''PUT'' \<or> u = ''PATCH'' then Update
         else if u = ''DELETE'' then Delete
         else Create)"

definition inferPriority :: "string \<Rightarrow> op_priority" where
  "inferPriority url =
     (if str_includes url ''/payments'' \<or> str_includes url ''/orders/create'' then High
      else if str_includes url ''/orders'' \<or> str_includes url ''/tickets'' then Medium
      else Low)"

text \<open>
  \<^verbatim>\<open>convertFailedRequestToOperation\<close> on a record read from the store, which carries its
  numeric \<^verbatim>\<open>id\<close>: \<^verbatim>\<open>request.id?.toString()\<close> is its decimal form, never empty, so the
  \<^verbatim>\<open>Date.now()\<close> alternative is not taken.
\<close>

definition convertFailedRequestToOperation :: "int \<times> FailedRequest \<Rightarrow> SyncOperation" where
  "convertFailedRequestToOperation request =
     \<lparr>op_id = string_of_int (fst request),
      optype = inferOperationType (fr_url (snd request)),
      action = inferAction (fr_method (snd request)),
      opdata = (case fr_body (snd request) of Some v \<Rightarrow> v | None \<Rightarrow> JNull),
      endpoint = fr_url (snd request),
      http_method = fr_method (snd request),
      priority = inferPriority (fr_url (snd request)),
      retryCount = fr_retryCount (snd request),
      maxRetries = fr_maxRetries (snd request),
      timestamp = fr_timestamp (snd request),
      userId = None\<rparr>"

text \<open>\<^verbatim>\<open>loadPendingOperations\<close>: the queue becomes the list of the converted records, each
  a new object.\<close>

fun allocate :: "SyncOperation list \<Rightarrow> BackgroundSyncManager \<Rightarrow> BackgroundSyncManager" where
  "allocate [] st = st"
| "allocate (operation # rest) st =
     allocate rest (st\<lparr>heap := (heap st)(nextRef st := operation), nextRef := Suc (nextRef st),
                       syncQueue := syncQueue st @ [nextRef st]\<rparr>)"

definition loadPendingOperations :: "BackgroundSyncManager \<Rightarrow> BackgroundSyncManager" where
  "loadPendingOperations st =
     allocate (map convertFailedRequestToOperation (getFailedRequests (storage st)))
       (st\<lparr>syncQueue := []\<rparr>)"

subsection \<open>The success handler\<close>

text \<open>
  \<^verbatim>\<open>handleSuccessfulOperation\<close> runs inside one \<^verbatim>\<open>try\<close> whose \<^verbatim>\<open>catch\<close> only logs:
  an exception ends the handler and keeps the writes made before it. Each helper below
  therefore returns the store as the handler leaves it.
\<close>

text \<open>\<^verbatim>\<open>for (const ticket of response.tickets)\<close>: arrays and strings iterate, other
  values throw a TypeError.\<close>

fun iterate :: "json \<Rightarrow> js_error + json list" where
  "iterate (JArr vs) = Inr vs"
| "iterate (JStr s) = Inr (map (\<lambda>c. JStr [c]) s)"
| "iterate _ = Inl TypeError"

fun cacheTickets :: "int \<Rightarrow> json list \<Rightarrow> OfflineStorage \<Rightarrow> OfflineStorage" where
  "cacheTickets now [] s = s"
| "cacheTickets now (ticket # rest) s =
     (case cacheTicket now ticket s of
        Inl e \<Rightarrow> s
      | Inr s' \<Rightarrow> cacheTickets now rest s')"

definition handleOrder :: "int \<Rightarrow> SyncOperation \<Rightarrow> json \<Rightarrow> OfflineStorage \<Rightarrow> OfflineStorage" where
  "handleOrder now operation response s =
     (if action operation = Create then
        (case get_prop response ''order'' of
           Inl e \<Rightarrow> s
         | Inr None \<Rightarrow> s
         | Inr (Some order) \<Rightarrow>
             if truthy order then
               (case cacheOrder now order s of
                  Inl e \<Rightarrow> s
                | Inr s1 \<Rightarrow>
                    (case get_prop response ''tickets'' of
                       Inl e \<Rightarrow> s1
                     | Inr None \<Rightarrow> s1
                     | Inr (Some tks) \<Rightarrow>
                         if truthy tks then
                           (case iterate tks of
                              Inl e \<Rightarrow> s1
                            | Inr ts \<Rightarrow> cacheTickets now ts s1)
                         else s1))
             else s)
      else s)"

text \<open>\<^verbatim>\<open>order.payments = order.payments || []; order.payments.push(response)\<close>: only an
  array has \<^verbatim>\<open>push\<close>.\<close>

definition push_payment :: "stored_doc \<Rightarrow> json \<Rightarrow> js_error + stored_doc" where
  "push_payment order response =
     (case map_of (doc order) ''payments'' of
        None \<Rightarrow> Inr (order\<lparr>doc := obj_set ''payments'' (JArr [response]) (doc order)\<rparr>)
      | Some payments \<Rightarrow>
          if truthy payments then
            (case payments of
               JArr ps \<Rightarrow> Inr (order\<lparr>doc := obj_set ''payments'' (JArr (ps @ [response])) (doc order)\<rparr>)
             | _ \<Rightarrow> Inl TypeError)
          else Inr (order\<lparr>doc := obj_set ''payments'' (JArr [response]) (doc order)\<rparr>))"

definition handlePayment :: "int \<Rightarrow> json \<Rightarrow> OfflineStorage \<Rightarrow> OfflineStorage" where
  "handlePayment now response s =
     (case get_prop response ''orderId'' of
        Inl e \<Rightarrow> s
      | Inr orderId \<Rightarrow>
          if truthy_opt orderId then
            (case get_order orderId s of
               Inl e \<Rightarrow> s
             | Inr None \<Rightarrow> s
             | Inr (Some order) \<Rightarrow>
                 (case push_payment order response of
                    Inl e \<Rightarrow> s
                  | Inr order' \<Rightarrow>
                      (case cacheOrder now (json_of_stored order') s of
                         Inl e \<Rightarrow> s
                       | Inr s' \<Rightarrow> s')))
          else s)"

definition handleSuccessfulOperation ::
  "int \<Rightarrow> string \<Rightarrow> SyncOperation \<Rightarrow> json \<Rightarrow> OfflineStorage \<Rightarrow> OfflineStorage" where
  "handleSuccessfulOperation now rnd operation response s =
     (case optype operation of
        Order \<Rightarrow> handleOrder now operation response s
      | Payment \<Rightarrow> handlePayment now response s
      | Cart \<Rightarrow> if action operation = Create then addToOfflineCart now rnd response s else s
      | UserPreference \<Rightarrow>
          if action operation = Update \<and> truthy (opdata operation)
          then fold (\<lambda>(k, v). setUserPreference now k v) (spread (opdata operation)) s
          else s
      | Ticket \<Rightarrow> s)"

subsection \<open>One request\<close>

text \<open>
  \<^verbatim>\<open>executeOperation\<close> in two halves, split at \<^verbatim>\<open>await fetch(...)\<close>: sending the
  request, and what happens once \<^verbatim>\<open>fetch\<close> has settled. Every exception of the second
  half is caught and becomes a failed \<^verbatim>\<open>SyncResult\<close> with the error's message.
\<close>

definition sendRequest :: "env \<Rightarrow> nat \<Rightarrow> BackgroundSyncManager \<Rightarrow> fetch_result \<times> BackgroundSyncManager" where
  "sendRequest e r st = (fetch e (length (sent st)) (heap st r), st\<lparr>sent := sent st @ [heap st r]\<rparr>)"

definition response_ok :: "int \<Rightarrow> bool" where
  "response_ok status = (200 \<le> status \<and> status \<le> 299)"

definition http_error_message :: "int \<Rightarrow> string \<Rightarrow> string" where
  "http_error_message status statusText = ''HTTP '' @ string_of_int status @ '': '' @ statusText"

definition failed_result :: "nat \<Rightarrow> string \<Rightarrow> SyncResult" where
  "failed_result r msg = \<lparr>sr_success = False, sr_operation = r, sr_error = Some msg, sr_response = None\<rparr>"

definition receiveResponse ::
  "env \<Rightarrow> nat \<Rightarrow> fetch_result \<Rightarrow> BackgroundSyncManager \<Rightarrow> SyncResult \<times> BackgroundSyncManager" where
  "receiveResponse e r res st =
     (case res of
        Rejected msg \<Rightarrow> (failed_result r msg, st)
      | Responded status statusText body \<Rightarrow>
          if \<not> response_ok status then (failed_result r (http_error_message status statusText), st)
          else (case body of
                  Inl msg \<Rightarrow> (failed_result r msg, st)
                | Inr responseData \<Rightarrow>
                    (\<lparr>sr_success = True, sr_operation = r, sr_error = None, sr_response = Some responseData\<rparr>,
                     st\<lparr>storage := handleSuccessfulOperation (clock e (length (sent st)))
                                      (random e (length (sent st))) (heap st r) responseData (storage st)\<rparr>)))"

definition executeOperation :: "env \<Rightarrow> nat \<Rightarrow> BackgroundSyncManager \<Rightarrow> SyncResult \<times> BackgroundSyncManager" where
  "executeOperation e r st = (case sendRequest e r st of (res, st1) \<Rightarrow> receiveResponse e r res st1)"

subsection \<open>The durable copy of an operation\<close>

definition find_request :: "SyncOperation \<Rightarrow> OfflineStorage \<Rightarrow> (int \<times> FailedRequest) option" where
  "find_request operation s =
     find (\<lambda>(k, r). fr_url r = endpoint operation \<and> fr_timestamp r = timestamp operation)
       (getFailedRequests s)"

definition removePendingOperation :: "SyncOperation \<Rightarrow> OfflineStorage \<Rightarrow> OfflineStorage" where
  "removePendingOperation operation s =
     (case find_request operation s of
        None \<Rightarrow> s
      | Some (k, request) \<Rightarrow> if k \<noteq> 0 then removeFailedRequest k s else s)"

definition retryCount_only :: "int \<Rightarrow> FailedRequest_partial" where
  "retryCount_only n = \<lparr>pu_url = None, pu_method = None, pu_headers = None, pu_body = None,
     pu_timestamp = None, pu_retryCount = Some n, pu_maxRetries = None\<rparr>"

definition updatePendingOperation :: "SyncOperation \<Rightarrow> OfflineStorage \<Rightarrow> OfflineStorage" where
  "updatePendingOperation operation s =
     (case find_request operation s of
        None \<Rightarrow> s
      | Some (k, request) \<Rightarrow>
          if k \<noteq> 0 then updateFailedRequest k (retryCount_only (retryCount operation)) s else s)"

subsection \<open>The drain pass\<close>

text \<open>
  The body of the \<^verbatim>\<open>for\<close> loop of \<^verbatim>\<open>performSync\<close> after \<^verbatim>\<open>executeOperation\<close> has
  returned. \<^verbatim>\<open>executeOperation\<close>, \<^verbatim>\<open>removePendingOperation\<close> and
  \<^verbatim>\<open>updatePendingOperation\<close> catch their own exceptions and nothing else in the body
  throws, so the loop's own \<^verbatim>\<open>catch\<close> is never entered.
\<close>

definition remove_from_queue :: "string \<Rightarrow> BackgroundSyncManager \<Rightarrow> BackgroundSyncManager" where
  "remove_from_queue ident st = st\<lparr>syncQueue := filter (\<lambda>q. op_id (heap st q) \<noteq> ident) (syncQueue st)\<rparr>"

definition settle :: "nat \<Rightarrow> SyncResult \<Rightarrow> BackgroundSyncManager \<Rightarrow> BackgroundSyncManager" where
  "settle r result st =
     (if sr_success result then
        (let st1 = remove_from_queue (op_id (heap st r)) st;
             st2 = st1\<lparr>storage := removePendingOperation (heap st1 r) (storage st1)\<rparr>
         in notifyApp (SYNC_SUCCESS (heap st2 r) result) st2)
      else
        (let st1 = st\<lparr>heap := (heap st)(r := (heap st r)\<lparr>retryCount := retryCount (heap st r) + 1\<rparr>)\<rparr>
         in if retryCount (heap st1 r) \<ge> maxRetries (heap st1 r) then
              (let st2 = remove_from_queue (op_id (heap st1 r)) st1;
                   st3 = st2\<lparr>storage := removePendingOperation (heap st2 r) (storage st2)\<rparr>
               in notifyApp (SYNC_FAILED (heap st3 r) (sr_error result)) st3)
            else
              (let st2 = st1\<lparr>storage := updatePendingOperation (heap st1 r) (storage st1)\<rparr>;
                   delay = js_index retryDelays
                             (min (retryCount (heap st2 r) - 1) (int (length retryDelays) - 1))
               in scheduleSync delay st2)))"

definition processOperation ::
  "env \<Rightarrow> nat \<Rightarrow> BackgroundSyncManager \<times> SyncResult list \<Rightarrow> BackgroundSyncManager \<times> SyncResult list" where
  "processOperation e r acc =
     (case acc of (st, results) \<Rightarrow>
        (case executeOperation e r st of (result, st1) \<Rightarrow> (settle r result st1, results @ [result])))"

definition sortedQueue :: "BackgroundSyncManager \<Rightarrow> nat list" where
  "sortedQueue st = js_sort (\<lambda>a b. compareOps (heap st a) (heap st b)) (syncQueue st)"

definition performSync :: "env \<Rightarrow> BackgroundSyncManager \<Rightarrow> BackgroundSyncManager \<times> SyncResult list" where
  "performSync e st =
     (if syncInProgress st \<or> syncQueue st = [] then (st, [])
      else (let st1 = st\<lparr>syncInProgress := True\<rparr>
            in case fold (processOperation e) (sortedQueue st1) (st1, []) of
                 (st2, results) \<Rightarrow> (st2\<lparr>syncInProgress := False\<rparr>, results)))"

text \<open>\<^verbatim>\<open>SyncUtils.shouldRetry\<close>, which nothing in the repository calls.\<close>

definition shouldRetry :: "SyncOperation \<Rightarrow> string \<Rightarrow> bool" where
  "shouldRetry operation err =
     (if str_includes err ''HTTP 4'' \<and> \<not> str_includes err ''408'' \<and> \<not> str_includes err ''429''
      then False
      else if retryCount operation \<ge> maxRetries operation then False
      else True)"

subsection \<open>Drain passes as the event loop runs them\<close>

text \<open>
  \<^verbatim>\<open>performSync\<close> is an \<^verbatim>\<open>async\<close> function: it runs until its request is with
  \<^verbatim>\<open>fetch\<close>, and the event loop runs other handlers until the request settles. A
  suspended call is a \<open>drain\<close>: the operation whose request is outstanding with the
  answer it will get, the rest of its \<^verbatim>\<open>sortedQueue\<close>, and its results so far.
\<close>

record drain =
  in_flight :: "nat \<times> fetch_result"
  remaining :: "nat list"
  results :: "SyncResult list"

record runtime =
  manager :: BackgroundSyncManager
  drains :: "drain list"

text \<open>The head of the loop: send the next request, or leave through \<^verbatim>\<open>finally\<close>.\<close>

definition next_iteration ::
  "env \<Rightarrow> nat list \<Rightarrow> SyncResult list \<Rightarrow> BackgroundSyncManager \<Rightarrow> BackgroundSyncManager \<times> drain option" where
  "next_iteration e refs rs st =
     (case refs of
        [] \<Rightarrow> (st\<lparr>syncInProgress := False\<rparr>, None)
      | r # rest \<Rightarrow>
          (case sendRequest e r st of
             (res, st1) \<Rightarrow> (st1, Some \<lparr>in_flight = (r, res), remaining = rest, results = rs\<rparr>)))"

definition performSync_call :: "env \<Rightarrow> runtime \<Rightarrow> runtime" where
  "performSync_call e rt =
     (let st = manager rt
      in if syncInProgress st \<or> syncQueue st = [] then rt
         else (let st1 = st\<lparr>syncInProgress := True\<rparr>
               in case next_iteration e (sortedQueue st1) [] st1 of
                    (st2, None) \<Rightarrow> rt\<lparr>manager := st2\<rparr>
                  | (st2, Some d) \<Rightarrow> rt\<lparr>manager := st2, drains := drains rt @ [d]\<rparr>))"

text \<open>The request of the \<open>i\<close>-th suspended call settles: the call finishes its iteration
  and goes to the head of the loop.\<close>

definition fetch_settles :: "env \<Rightarrow> nat \<Rightarrow> runtime \<Rightarrow> runtime" where
  "fetch_settles e i rt =
     (if i < length (drains rt) then
        (let d = drains rt ! i
         in case receiveResponse e (fst (in_flight d)) (snd (in_flight d)) (manager rt) of
              (result, st1) \<Rightarrow>
                (case next_iteration e (remaining d) (results d @ [result])
                        (settle (fst (in_flight d)) result st1) of
                   (st2, None) \<Rightarrow> rt\<lparr>manager := st2, drains := take i (drains rt) @ drop (Suc i) (drains rt)\<rparr>
                 | (st2, Some d') \<Rightarrow> rt\<lparr>manager := st2, drains := (drains rt)[i := d']\<rparr>))
      else rt)"

text \<open>
  What the event loop can deliver to the manager: a call of \<^verbatim>\<open>forcSync\<close> (from the
  visibility, online and interval handlers of pwa.ts), the callback of the \<open>i\<close>-th pending
  \<^verbatim>\<open>scheduleSync\<close> timer, the browser's \<^verbatim>\<open>offline\<close> and \<^verbatim>\<open>online\<close> events, and the
  settling of the outstanding request of the \<open>i\<close>-th suspended drain. What a drain does
  between the settling of one request and the sending of the next (reading the body, the
  store updates) is taken as one step.
\<close>

datatype loop_event = ForceSync | TimerFires nat | GoOffline | GoOnline | FetchSettles nat

definition handleOffline :: "BackgroundSyncManager \<Rightarrow> BackgroundSyncManager" where
  "handleOffline st = st\<lparr>syncInProgress := False\<rparr>"

definition handleOnline :: "BackgroundSyncManager \<Rightarrow> BackgroundSyncManager" where
  "handleOnline st = scheduleSync (Some 1000) st"

fun step :: "env \<Rightarrow> loop_event \<Rightarrow> runtime \<Rightarrow> runtime" where
  "step e ForceSync rt = (if online (manager rt) then performSync_call e rt else rt)"
| "step e (TimerFires i) rt =
     (if i < length (timers (manager rt)) then
        (let ts = timers (manager rt);
             rt1 = rt\<lparr>manager := (manager rt)\<lparr>timers := take i ts @ drop (Suc i) ts\<rparr>\<rparr>
         in if online (manager rt1) \<and> \<not> syncInProgress (manager rt1)
            then performSync_call e rt1 else rt1)
      else rt)"
| "step e GoOffline rt = rt\<lparr>manager := handleOffline ((manager rt)\<lparr>online := False\<rparr>)\<rparr>"
| "step e GoOnline rt = rt\<lparr>manager := handleOnline ((manager rt)\<lparr>online := True\<rparr>)\<rparr>"
| "step e (FetchSettles i) rt = fetch_settles e i rt"

definition run :: "env \<Rightarrow> loop_event list \<Rightarrow> runtime \<Rightarrow> runtime" where
  "run e evs rt = fold (step e) evs rt"

subsection \<open>Concrete managers\<close>

definition initialManager :: BackgroundSyncManager where
  "initialManager = \<lparr>heap = (\<lambda>r. blankOperation), nextRef = 0, syncQueue = [],
     syncInProgress = False, online = True, storage = emptyStorage, sent = [], timers = [],
     dispatched = []\<rparr>"

text \<open>The page is loaded again, in a browser whose service worker is ready: a new manager
  over the same database. \<^verbatim>\<open>initialize\<close> fills its queue from the store and, when
  online, schedules a sync.\<close>

definition reload :: "BackgroundSyncManager \<Rightarrow> BackgroundSyncManager" where
  "reload st =
     (let st1 = loadPendingOperations (initialManager\<lparr>storage := storage st\<rparr>)
      in if online st1 then scheduleSync None st1 else st1)"

text \<open>A server that answers every request with the given status and an empty JSON object.\<close>

definition server_always :: "int \<Rightarrow> string \<Rightarrow> env" where
  "server_always status statusText =
     \<lparr>fetch = (\<lambda>n operation. Responded status statusText (Inr (JObj []))),
      clock = (\<lambda>n. 2000), random = (\<lambda>n. ''r'')\<rparr>"

text \<open>One order creation enqueued at time 1000 on a fresh manager.\<close>

definition order_queued :: BackgroundSyncManager where
  "order_queued =
     queueOrderCreation 1000 ''k3j9x'' (JObj [(''eventId'', JStr ''e1''), (''quantity'', JNum 2)])
       initialManager"

text \<open>A preference update, then a payment, then an order creation, enqueued in this order.\<close>

definition three_queued :: BackgroundSyncManager where
  "three_queued =
     queueOrderCreation 3000 ''c'' (JObj [(''eventId'', JStr ''e1'')])
       (queuePayment 2000 ''b'' (JObj [(''orderId'', JStr ''o1'')])
          (queueUserPreferencesUpdate 1000 ''a'' (JObj [(''theme'', JStr ''dark'')]) initialManager))"

text \<open>A cart update enqueued through \<^verbatim>\<open>addOperation\<close> with \<open>maxRetries = 0\<close>.\<close>

definition zero_retry_queued :: BackgroundSyncManager where
  "zero_retry_queued =
     addOperation 1000 ''q7''
       (blankOperation\<lparr>optype := Cart, action := Update, opdata := JObj [(''items'', JArr [])],
          endpoint := ''/api/orders/cart'', http_method := ''PUT'', priority := Medium,
          maxRetries := 0\<rparr>) initialManager"

section \<open>The cache strategy engine (sw.js)\<close>

text \<open>
  The service worker answers \<^verbatim>\<open>fetch\<close> events. A request is its method, its absolute URL,
  the path of the URL, its headers and its body; a response is a status, headers and a body.
  The network either rejects or resolves to a response.

  The Cache Storage is two named caches, each a list of (absolute request URL, response)
  pairs. Every operation on it returns a promise that can reject (a storage failure); which
  calls reject is given by \<open>cf\<close>, \<open>None\<close> for a call that works. \<^verbatim>\<open>caches.match\<close> looks
  through the caches in the order of their creation, the static cache first. A
  \<^verbatim>\<open>cache.put\<close> is never awaited by the handlers: when it rejects, nothing is stored and
  nobody notices.
\<close>

record request =
  req_method :: string
  req_url :: string
  pathname :: string
  req_headers :: "(string \<times> string) list"
  req_body :: string

datatype body = Text string | Json json

record response =
  status :: int
  resp_headers :: "(string \<times> string) list"
  resp_body :: body
















text \<open>
  Each handler returns what its promise settles to, \<open>Inl\<close> for a rejection, and the
  service worker's state afterwards. \<^verbatim>\<open>try { A } catch { B }\<close> is a case distinction on
  the outcome of \<open>A\<close>; an exception inside \<open>B\<close>, or outside any \<^verbatim>\<open>try\<close>, rejects the
  handler.
\<close>









section \<open>The notification scheduler (notification.ts, sw.js)\<close>

text \<open>
  \<^verbatim>\<open>scheduleEventReminder\<close> writes a record to the store
  \<^verbatim>\<open>scheduled-notifications\<close> of the database \<^verbatim>\<open>TiKoNotificationsDB\<close>, keyed by its
  \<^verbatim>\<open>id\<close>. \<open>eventDate\<close> is the instant the date string denotes.
\<close>

record ScheduledNotification =
  sn_eventTitle :: string
  sn_eventDate :: int
  sn_eventId :: string
  sn_reminderTime :: int
  sn_type :: string

record notification =
  n_title :: string
  n_body :: string
  n_tag :: "string option"

record notifier =
  scheduled :: "(string \<times> ScheduledNotification) list"
  shown :: "notification list"

definition storeScheduledNotification :: "string \<Rightarrow> ScheduledNotification \<Rightarrow> notifier \<Rightarrow> notifier" where
  "storeScheduledNotification ident n st = st\<lparr>scheduled := AList.update ident n (scheduled st)\<rparr>"

definition scheduleEventReminder ::
  "int \<Rightarrow> string \<Rightarrow> int \<Rightarrow> string \<Rightarrow> int \<Rightarrow> notifier \<Rightarrow> notifier" where
  "scheduleEventReminder now eventTitle eventDate eventId reminderTime st =
     (let eventDateTime = eventDate;
          reminderDateTime = eventDateTime - reminderTime
      in if reminderDateTime \<le> now then st
         else storeScheduledNotification
                (''reminder-'' @ eventId @ ''-'' @ string_of_int reminderTime)
                \<lparr>sn_eventTitle = eventTitle, sn_eventDate = eventDate, sn_eventId = eventId,
                 sn_reminderTime = reminderDateTime, sn_type = ''event-reminder''\<rparr> st)"

text \<open>
  Everything the runtime does when it is active, as far as reminders and notifications go.
  The service worker's listeners: \<^verbatim>\<open>push\<close> shows the notification the server sent,
  \<^verbatim>\<open>sync\<close> replays failed requests, \<^verbatim>\<open>notificationclick\<close> closes and navigates,
  \<^verbatim>\<open>message\<close> and \<^verbatim>\<open>fetch\<close> do not touch notifications. In the page,
  \<^verbatim>\<open>visibilitychange\<close> and the three maintenance intervals of pwa.ts sync and refresh
  data. No listener reads \<^verbatim>\<open>scheduled-notifications\<close>.
\<close>

datatype wake =
    Push "notification option"
  | Sync string
  | NotificationClick
  | Message string
  | Fetch
  | VisibilityChange
  | MaintenanceInterval

fun on_wake :: "int \<Rightarrow> wake \<Rightarrow> notifier \<Rightarrow> notifier" where
  "on_wake now (Push None) st = st"
| "on_wake now (Push (Some n)) st = st\<lparr>shown := shown st @ [n]\<rparr>"
| "on_wake now (Sync tag) st = st"
| "on_wake now NotificationClick st = st"
| "on_wake now (Message ty) st = st"
| "on_wake now Fetch st = st"
| "on_wake now VisibilityChange st = st"
| "on_wake now MaintenanceInterval st = st"

fun wakes :: "(int \<times> wake) list \<Rightarrow> notifier \<Rightarrow> notifier" where
  "wakes [] st = st"
| "wakes ((now, w) # rest) st = wakes rest (on_wake now w st)"

section \<open>Concrete requests and reminders\<close>








text \<open>At time 0, a reminder 30 minutes before an event that starts in 40 minutes: due in 10
  minutes.\<close>

definition reminder_set :: notifier where
  "reminder_set = scheduleEventReminder 0 ''Launch'' 2400000 ''e1'' 1800000 \<lparr>scheduled = [], shown = []\<rparr>"

section \<open>Concrete stores\<close>

text \<open>An event cached at time 0 and then marked for sync, with an order cached at the same
  time beside it.\<close>

definition pending_event_store :: OfflineStorage where
  "pending_event_store =
     markForSync_events ''e1''
       (case cacheEvent 0 (JObj [(''id'', JStr ''e1''), (''title'', JStr ''Launch'')]) emptyStorage of
          Inl e \<Rightarrow> emptyStorage
        | Inr s \<Rightarrow> (case cacheOrder 0 (JObj [(''id'', JStr ''o1''), (''orderNumber'', JStr ''A-1'')]) s of
                     Inl e \<Rightarrow> s
                   | Inr s' \<Rightarrow> s'))"

text \<open>The same store with a second event, cached seven days and one hour later.\<close>

definition two_event_store :: OfflineStorage where
  "two_event_store =
     (case cacheEvent 608400000 (JObj [(''id'', JStr ''e2''), (''title'', JStr ''Encore'')])
             pending_event_store of
        Inl e \<Rightarrow> pending_event_store
      | Inr s \<Rightarrow> s)"

section \<open>Properties of the sort\<close>

lemma priorityOrder_inj: "priorityOrder p = priorityOrder q \<longleftrightarrow> p = q"
  by (cases p; cases q) simp_all




lemma set_insort_cmp: "set (insort_cmp cmp x xs) = insert x (set xs)"
  by (induction xs) auto

lemma length_insort_cmp: "length (insort_cmp cmp x xs) = Suc (length xs)"
  by (induction xs) auto

lemma set_js_sort: "set (js_sort cmp xs) = set xs"
  by (induction xs) (auto simp: set_insort_cmp)

lemma length_js_sort: "length (js_sort cmp xs) = length xs"
  by (induction xs) (auto simp: length_insort_cmp)



lemma distinct_insort_cmp: "distinct (insort_cmp cmp x xs) \<longleftrightarrow> x \<notin> set xs \<and> distinct xs"
  by (induction xs) (auto simp: set_insort_cmp)

lemma distinct_js_sort: "distinct (js_sort cmp xs) \<longleftrightarrow> distinct xs"
  by (induction xs) (auto simp: distinct_insort_cmp set_js_sort)




section \<open>The eviction sweep\<close>

lemma fold_sweep_event:
  "fold (sweep_event c) es s =
     s\<lparr>events := filter (\<lambda>(k, d). k \<notin> fst ` {e \<in> set es. cachedAt (snd e) < c}) (events s)\<rparr>"
proof (induction es arbitrary: s)
  case Nil
  then show ?case by simp
next
  case (Cons e es)
  show ?case
  proof (cases "cachedAt (snd e) < c")
    case True
    have "filter (\<lambda>(k, d). k \<notin> fst ` {x \<in> set es. cachedAt (snd x) < c})
            (AList.delete (fst e) (events s)) =
          filter (\<lambda>(k, d). k \<notin> fst ` {x \<in> set (e # es). cachedAt (snd x) < c}) (events s)"
      using True by (auto simp: AList.delete_eq intro!: filter_cong)
    moreover have "sweep_event c e s = s\<lparr>events := AList.delete (fst e) (events s)\<rparr>"
      using True by (simp add: sweep_event_def)
    ultimately show ?thesis by (simp add: Cons.IH)
  next
    case False
    have "{x \<in> set (e # es). cachedAt (snd x) < c} = {x \<in> set es. cachedAt (snd x) < c}"
      using False by auto
    moreover have "sweep_event c e s = s"
      using False by (simp add: sweep_event_def)
    ultimately show ?thesis by (simp add: Cons.IH)
  qed
qed

lemma removeFailedRequest_docs:
  "events (removeFailedRequest k s) = events s"
  "orders (removeFailedRequest k s) = orders s"
  "tickets (removeFailedRequest k s) = tickets s"
  by (simp_all add: removeFailedRequest_def delete_failed_def)

lemma fold_sweep_request_docs:
  "events (fold (sweep_request c) rs s) = events s \<and>
   orders (fold (sweep_request c) rs s) = orders s \<and>
   tickets (fold (sweep_request c) rs s) = tickets s"
proof (induction rs arbitrary: s)
  case Nil
  then show ?case by simp
next
  case (Cons r rs)
  have "events (sweep_request c r s) = events s" "orders (sweep_request c r s) = orders s"
    "tickets (sweep_request c r s) = tickets s"
    by (simp_all add: sweep_request_def removeFailedRequest_docs)
  then show ?case by (simp add: Cons.IH)
qed

text \<open>With one record per key, deleting the keys of the expired records is keeping the
  records that are not expired.\<close>

lemma expired_keys_filter:
  assumes "distinct (map fst es)"
  shows "filter (\<lambda>(k, d). k \<notin> fst ` {e \<in> set es. cachedAt (snd e) < c}) es =
         filter (\<lambda>(k, d). \<not> cachedAt d < c) es"
proof (rule filter_cong[OF refl])
  fix x assume x: "x \<in> set es"
  obtain k d where kd: "x = (k, d)" by (cases x)
  have "k \<in> fst ` {e \<in> set es. cachedAt (snd e) < c} \<longleftrightarrow> cachedAt d < c"
  proof
    assume "k \<in> fst ` {e \<in> set es. cachedAt (snd e) < c}"
    then obtain e where e: "e \<in> set es" "cachedAt (snd e) < c" "fst e = k" by auto
    from assms x e(1) e(3) kd have "e = x" by (metis eq_key_imp_eq_value prod.collapse)
    with e(2) kd show "cachedAt d < c" by simp
  next
    assume "cachedAt d < c"
    with x kd show "k \<in> fst ` {e \<in> set es. cachedAt (snd e) < c}" by force
  qed
  then show "(case x of (k, d) \<Rightarrow> k \<notin> fst ` {e \<in> set es. cachedAt (snd e) < c}) =
             (case x of (k, d) \<Rightarrow> \<not> cachedAt d < c)"
    by (simp add: kd)
qed

text \<open>
  C4, as the code has it. In a store that holds one record per key, the sweep at time \<open>now\<close>
  keeps exactly the events with \<open>cachedAt \<ge> now - maxAge\<close> and removes every older event,
  whatever its \<open>syncStatus\<close>; orders and tickets are left as they are; the default
  \<open>maxAge\<close> is seven days in milliseconds.
\<close>

theorem clearExpiredCache_events:
  assumes "distinct (map fst (events s))"
  shows "events (clearExpiredCache now maxAge s) =
           filter (\<lambda>(k, d). \<not> cachedAt d < now - maxAge) (events s)
         \<and> orders (clearExpiredCache now maxAge s) = orders s
         \<and> tickets (clearExpiredCache now maxAge s) = tickets s
         \<and> defaultMaxAge = 7 * 24 * 60 * 60 * 1000"
  using expired_keys_filter[OF assms, of "now - maxAge"]
  by (simp add: clearExpiredCache_def Let_def getCachedEvents_def fold_sweep_request_docs
        fold_sweep_event defaultMaxAge_def)

lemma two_event_store_events:
  "events two_event_store =
     [(KStr ''e1'', \<lparr>doc = [(''id'', JStr ''e1''), (''title'', JStr ''Launch'')], cachedAt = 0,
                     syncStatus = Pending\<rparr>),
      (KStr ''e2'', \<lparr>doc = [(''id'', JStr ''e2''), (''title'', JStr ''Encore'')],
                     cachedAt = 608400000, syncStatus = Synced\<rparr>)]"
  by (simp add: two_event_store_def pending_event_store_def markForSync_events_def cacheEvent_def
        cacheOrder_def put_order_def orderNumber_taken_def put_doc_def make_stored_def
        emptyStorage_def strip_store_fields_def)

text \<open>The sweep of C4 on the store of two events, eight days after the first was cached:
  the pending event goes, the fresh one stays.\<close>

theorem clearExpiredCache_events_witness:
  "distinct (map fst (events two_event_store))
   \<and> events (clearExpiredCache 691200000 defaultMaxAge two_event_store) =
       [(KStr ''e2'', \<lparr>doc = [(''id'', JStr ''e2''), (''title'', JStr ''Encore'')],
                       cachedAt = 608400000, syncStatus = Synced\<rparr>)]
   \<and> orders (clearExpiredCache 691200000 defaultMaxAge two_event_store) = orders two_event_store"
proof -
  have d: "distinct (map fst (events two_event_store))"
    by (simp add: two_event_store_events)
  show ?thesis
    using d clearExpiredCache_events[OF d, of 691200000 defaultMaxAge]
    by (simp add: two_event_store_events defaultMaxAge_def)
qed

text \<open>
  C4 as stated fails: an event whose \<open>syncStatus\<close> is pending and which was cached eight
  days ago is removed by the default sweep, and an order of the same age is kept.
\<close>

theorem clearExpiredCache_removes_pending:
  "map (\<lambda>(k, d). (k, syncStatus d, cachedAt d)) (events pending_event_store) =
     [(KStr ''e1'', Pending, 0)]
   \<and> map (\<lambda>(k, d). (k, cachedAt d)) (orders pending_event_store) = [(KStr ''o1'', 0)]
   \<and> events (clearExpiredCache 691200000 defaultMaxAge pending_event_store) = []
   \<and> map fst (orders (clearExpiredCache 691200000 defaultMaxAge pending_event_store)) = [KStr ''o1'']"
  by (simp add: pending_event_store_def markForSync_events_def cacheEvent_def cacheOrder_def
        put_order_def orderNumber_taken_def put_doc_def make_stored_def emptyStorage_def
        strip_store_fields_def clearExpiredCache_def getCachedEvents_def sweep_event_def
        defaultMaxAge_def Let_def getFailedRequests_def)

section \<open>Keys of the durable queue\<close>

text \<open>
  The store \<^verbatim>\<open>failed-requests\<close> generates its keys, which are numbers.
  \<^verbatim>\<open>removeFailedRequest\<close> and \<^verbatim>\<open>updateFailedRequest\<close> address a record by the
  string \<^verbatim>\<open>id.toString()\<close>, which is the key of no record: neither changes the store.
\<close>

lemma removeFailedRequest_keeps: "removeFailedRequest k s = s"
  by (simp add: removeFailedRequest_def delete_failed_def case_prod_beta)

lemma updateFailedRequest_keeps: "updateFailedRequest k updates s = s"
proof -
  have "find (\<lambda>(k', r). KNum k' = KStr (string_of_int k)) (failedRequests s) = None"
    by (simp add: find_None_iff case_prod_beta)
  then show ?thesis by (simp add: updateFailedRequest_def get_failed_entry_def)
qed

section \<open>What the durable queue records\<close>

lemma addFailedRequest_appends:
  "failedRequests (addFailedRequest request s) =
     failedRequests s @ [(nextRequestId s, request\<lparr>fr_retryCount := 0, fr_maxRetries := 3\<rparr>)]"
  by (simp add: addFailedRequest_def Let_def)

text \<open>
  C10. \<^verbatim>\<open>addFailedRequest\<close> appends the request with \<open>retryCount = 0\<close> and
  \<open>maxRetries = 3\<close>, whatever values the request came with. So every operation that
  \<^verbatim>\<open>addOperation\<close> enqueues is persisted with \<open>retryCount = 0\<close> and \<open>maxRetries = 3\<close>,
  whatever \<open>maxRetries\<close> it keeps in memory: 5 for an order creation or a payment.
\<close>

theorem addFailedRequest_resets_retry_fields:
  "getFailedRequests (addFailedRequest request s) =
     getFailedRequests s @ [(nextRequestId s, request\<lparr>fr_retryCount := 0, fr_maxRetries := 3\<rparr>)]
   \<and> (let st' = addOperation now rnd operation st
      in maxRetries (heap st' (nextRef st)) = maxRetries operation
         \<and> map (\<lambda>(k, r). (fr_retryCount r, fr_maxRetries r)) (getFailedRequests (storage st')) =
           map (\<lambda>(k, r). (fr_retryCount r, fr_maxRetries r)) (getFailedRequests (storage st)) @ [(0, 3)])
   \<and> (let st' = queueOrderCreation now rnd orderData st
      in maxRetries (heap st' (nextRef st)) = 5
         \<and> map (\<lambda>(k, r). (fr_retryCount r, fr_maxRetries r)) (getFailedRequests (storage st')) =
           map (\<lambda>(k, r). (fr_retryCount r, fr_maxRetries r)) (getFailedRequests (storage st)) @ [(0, 3)])
   \<and> (let st' = queuePayment now rnd paymentData st
      in maxRetries (heap st' (nextRef st)) = 5
         \<and> map (\<lambda>(k, r). (fr_retryCount r, fr_maxRetries r)) (getFailedRequests (storage st')) =
           map (\<lambda>(k, r). (fr_retryCount r, fr_maxRetries r)) (getFailedRequests (storage st)) @ [(0, 3)])"
  by (simp add: getFailedRequests_def addFailedRequest_appends queueOrderCreation_def queuePayment_def
        addOperation_def storePendingOperation_def scheduleSync_def Let_def)

section \<open>One iteration of the drain loop\<close>

lemma executeOperation_frame:
  "\<exists>result st1. executeOperation e r st = (result, st1) \<and> sr_operation result = r
     \<and> heap st1 = heap st \<and> syncQueue st1 = syncQueue st \<and> sent st1 = sent st @ [heap st r]
     \<and> syncInProgress st1 = syncInProgress st \<and> timers st1 = timers st
     \<and> dispatched st1 = dispatched st \<and> online st1 = online st \<and> nextRef st1 = nextRef st"
  by (auto simp: executeOperation_def sendRequest_def receiveResponse_def failed_result_def
      split: fetch_result.splits sum.splits)

lemma settle_heap:
  "heap (settle r res st) =
     (if sr_success res then heap st
      else (heap st)(r := (heap st r)\<lparr>retryCount := retryCount (heap st r) + 1\<rparr>))"
  by (simp add: settle_def Let_def remove_from_queue_def notifyApp_def scheduleSync_def)

lemma settle_syncQueue:
  "syncQueue (settle r res st) =
     (if sr_success res \<or> retryCount (heap st r) + 1 \<ge> maxRetries (heap st r)
      then filter (\<lambda>q. op_id (heap st q) \<noteq> op_id (heap st r)) (syncQueue st)
      else syncQueue st)"
  by (auto simp: settle_def Let_def remove_from_queue_def notifyApp_def scheduleSync_def
      intro!: filter_cong)

lemma settle_frame:
  "sent (settle r res st) = sent st" "syncInProgress (settle r res st) = syncInProgress st"
  "online (settle r res st) = online st" "nextRef (settle r res st) = nextRef st"
  by (simp_all add: settle_def Let_def remove_from_queue_def notifyApp_def scheduleSync_def)

lemma settle_timers:
  "timers (settle r res st) =
     (if \<not> sr_success res \<and> retryCount (heap st r) + 1 < maxRetries (heap st r)
      then timers st @ [case js_index retryDelays (min (retryCount (heap st r)) 4) of None \<Rightarrow> 0 | Some d \<Rightarrow> d]
      else timers st)"
  by (simp add: settle_def Let_def remove_from_queue_def notifyApp_def scheduleSync_def retryDelays_def)

lemma settle_dispatched:
  "dispatched (settle r res st) =
     (if sr_success res then dispatched st @ [SYNC_SUCCESS (heap st r) res]
      else if retryCount (heap st r) + 1 \<ge> maxRetries (heap st r)
      then dispatched st @ [SYNC_FAILED ((heap st r)\<lparr>retryCount := retryCount (heap st r) + 1\<rparr>) (sr_error res)]
      else dispatched st)"
  by (simp add: settle_def Let_def remove_from_queue_def notifyApp_def scheduleSync_def)

lemma processOperation_step:
  "\<exists>result st1. executeOperation e r st = (result, st1)
     \<and> processOperation e r (st, rs) = (settle r result st1, rs @ [result])
     \<and> sr_operation result = r
     \<and> heap st1 = heap st \<and> syncQueue st1 = syncQueue st \<and> sent st1 = sent st @ [heap st r]
     \<and> syncInProgress st1 = syncInProgress st \<and> timers st1 = timers st
     \<and> dispatched st1 = dispatched st"
  using executeOperation_frame[of e r st] by (auto simp: processOperation_def)

lemma loop_acc:
  "fold (processOperation e) xs (st, rs) =
     (case fold (processOperation e) xs (st, []) of (st', new) \<Rightarrow> (st', rs @ new))"
proof (induction xs arbitrary: st rs)
  case Nil
  then show ?case by simp
next
  case (Cons x xs)
  obtain result st1 where ex: "executeOperation e x st = (result, st1)"
    by (cases "executeOperation e x st")
  then have p: "\<And>rs. processOperation e x (st, rs) = (settle x result st1, rs @ [result])"
    by (simp add: processOperation_def)
  show ?case
    by (simp add: p Cons.IH[of "settle x result st1" "rs @ [result]"]
        Cons.IH[of "settle x result st1" "[result]"] split: prod.splits)
qed

lemma loop_Cons:
  assumes "processOperation e x (st, []) = (s1, [result])"
    and "fold (processOperation e) xs (s1, []) = (st', new)"
  shows "fold (processOperation e) (x # xs) (st, []) = (st', result # new)"
  using assms by (simp add: loop_acc[of e xs s1 "[result]"])

lemma step_shape:
  "\<exists>s1 result. processOperation e x (st, []) = (s1, [result])"
  using processOperation_step[of e x st "[]"] by auto

lemma step_facts:
  assumes "processOperation e x (st, []) = (s1, [result])"
  shows "sr_operation result = x"
    and "heap s1 = (if sr_success result then heap st
                else (heap st)(x := (heap st x)\<lparr>retryCount := retryCount (heap st x) + 1\<rparr>))"
    and "syncQueue s1 = (if sr_success result \<or> maxRetries (heap st x) \<le> retryCount (heap st x) + 1
                     then filter (\<lambda>q. op_id (heap st q) \<noteq> op_id (heap st x)) (syncQueue st)
                     else syncQueue st)"
    and "sent s1 = sent st @ [heap st x]"
    and "syncInProgress s1 = syncInProgress st"
proof -
  from processOperation_step[of e x st "[]"] obtain res st1 where
    a: "processOperation e x (st, []) = (settle x res st1, [] @ [res])"
       "sr_operation res = x" "heap st1 = heap st" "syncQueue st1 = syncQueue st"
       "sent st1 = sent st @ [heap st x]" "syncInProgress st1 = syncInProgress st"
    by blast
  from a(1) assms have s1: "s1 = settle x result st1" and rs1: "res = result" by simp_all
  show "sr_operation result = x" using a(2) rs1 by simp
  show "heap s1 = (if sr_success result then heap st
                else (heap st)(x := (heap st x)\<lparr>retryCount := retryCount (heap st x) + 1\<rparr>))"
    by (simp add: s1 settle_heap a(3))
  show "syncQueue s1 = (if sr_success result \<or> maxRetries (heap st x) \<le> retryCount (heap st x) + 1
                     then filter (\<lambda>q. op_id (heap st q) \<noteq> op_id (heap st x)) (syncQueue st)
                     else syncQueue st)"
    by (simp add: s1 settle_syncQueue a(3) a(4))
  show "sent s1 = sent st @ [heap st x]" by (simp add: s1 settle_frame a(5))
  show "syncInProgress s1 = syncInProgress st" by (simp add: s1 settle_frame a(6))
qed

lemma loop_ConsE:
  assumes "fold (processOperation e) (x # xs) (st, []) = (st', new)"
  obtains s1 result new' where "processOperation e x (st, []) = (s1, [result])"
    "fold (processOperation e) xs (s1, []) = (st', new')" "new = result # new'"
proof -
  from step_shape[of e x st] obtain s1 result where p: "processOperation e x (st, []) = (s1, [result])"
    by blast
  obtain st2 new' where f: "fold (processOperation e) xs (s1, []) = (st2, new')"
    by (cases "fold (processOperation e) xs (s1, [])")
  from assms p f have "st' = st2" "new = result # new'"
    by (simp_all add: loop_acc[of e xs s1 "[result]"])
  with p f that show thesis by blast
qed

lemma loop_results:
  assumes "fold (processOperation e) xs (st, []) = (st', new)"
  shows "map sr_operation new = xs"
  using assms
proof (induction xs arbitrary: st new)
  case Nil
  then show ?case by simp
next
  case (Cons x xs)
  from Cons.prems obtain s1 result new' where
    p: "processOperation e x (st, []) = (s1, [result])"
    and f: "fold (processOperation e) xs (s1, []) = (st', new')" and n: "new = result # new'"
    by (rule loop_ConsE)
  from step_facts(1)[OF p] Cons.IH[OF f] n show ?case by simp
qed

lemma loop_heap:
  assumes "fold (processOperation e) xs (st, []) = (st', new)"
  shows "(heap st' q)\<lparr>retryCount := 0\<rparr> = (heap st q)\<lparr>retryCount := 0\<rparr>
         \<and> retryCount (heap st q) \<le> retryCount (heap st' q)
         \<and> (q \<notin> set xs \<longrightarrow> heap st' q = heap st q)"
  using assms
proof (induction xs arbitrary: st new)
  case Nil
  then show ?case by simp
next
  case (Cons x xs)
  from Cons.prems obtain s1 result new' where
    p: "processOperation e x (st, []) = (s1, [result])"
    and f: "fold (processOperation e) xs (s1, []) = (st', new')" and n: "new = result # new'"
    by (rule loop_ConsE)
  note hs = step_facts(2)[OF p]
  have h: "(heap s1 q)\<lparr>retryCount := 0\<rparr> = (heap st q)\<lparr>retryCount := 0\<rparr>"
       "retryCount (heap st q) \<le> retryCount (heap s1 q)"
       "q \<noteq> x \<longrightarrow> heap s1 q = heap st q"
    by (simp_all add: hs)
  from Cons.IH[OF f] have
    ih: "(heap st' q)\<lparr>retryCount := 0\<rparr> = (heap s1 q)\<lparr>retryCount := 0\<rparr>"
        "retryCount (heap s1 q) \<le> retryCount (heap st' q)"
        "q \<notin> set xs \<longrightarrow> heap st' q = heap s1 q"
    by simp_all
  show ?case
  proof (intro conjI impI)
    show "(heap st' q)\<lparr>retryCount := 0\<rparr> = (heap st q)\<lparr>retryCount := 0\<rparr>"
      using h(1) ih(1) by simp
    show "retryCount (heap st q) \<le> retryCount (heap st' q)"
      using h(2) ih(2) by simp
    assume "q \<notin> set (x # xs)"
    then show "heap st' q = heap st q" using h(3) ih(3) by simp
  qed
qed

lemma loop_fields:
  assumes "fold (processOperation e) xs (st, []) = (st', new)"
  shows "op_id (heap st' q) = op_id (heap st q)" "maxRetries (heap st' q) = maxRetries (heap st q)"
proof -
  from loop_heap[OF assms, of q]
  have eq: "(heap st' q)\<lparr>retryCount := 0\<rparr> = (heap st q)\<lparr>retryCount := 0\<rparr>" by simp
  have "op_id (heap st' q) = op_id ((heap st' q)\<lparr>retryCount := 0\<rparr>)" by simp
  also have "\<dots> = op_id (heap st q)" by (simp only: eq) simp
  finally show "op_id (heap st' q) = op_id (heap st q)" .
  have "maxRetries (heap st' q) = maxRetries ((heap st' q)\<lparr>retryCount := 0\<rparr>)" by simp
  also have "\<dots> = maxRetries (heap st q)" by (simp only: eq) simp
  finally show "maxRetries (heap st' q) = maxRetries (heap st q)" .
qed

lemma loop_sent:
  assumes "fold (processOperation e) xs (st, []) = (st', new)"
  shows "map (\<lambda>o1. o1\<lparr>retryCount := 0\<rparr>) (sent st') =
         map (\<lambda>o1. o1\<lparr>retryCount := 0\<rparr>) (sent st) @ map (\<lambda>r. (heap st r)\<lparr>retryCount := 0\<rparr>) xs
         \<and> syncInProgress st' = syncInProgress st"
  using assms
proof (induction xs arbitrary: st new)
  case Nil
  then show ?case by simp
next
  case (Cons x xs)
  from Cons.prems obtain s1 result new' where
    p: "processOperation e x (st, []) = (s1, [result])"
    and f: "fold (processOperation e) xs (s1, []) = (st', new')" and n: "new = result # new'"
    by (rule loop_ConsE)
  note s = step_facts(4,5)[OF p]
  have h: "\<And>q. (heap s1 q)\<lparr>retryCount := 0\<rparr> = (heap st q)\<lparr>retryCount := 0\<rparr>"
    by (simp add: step_facts(2)[OF p])
  from Cons.IH[OF f] s h show ?case by simp
qed

lemma loop_queue:
  assumes "fold (processOperation e) xs (st, []) = (st', new)"
  shows "\<exists>P. syncQueue st' = filter P (syncQueue st)"
  using assms
proof (induction xs arbitrary: st new)
  case Nil
  then have "syncQueue st' = filter (\<lambda>q. True) (syncQueue st)" by simp
  then show ?case by blast
next
  case (Cons x xs)
  from Cons.prems obtain s1 result new' where
    p: "processOperation e x (st, []) = (s1, [result])"
    and f: "fold (processOperation e) xs (s1, []) = (st', new')" and n: "new = result # new'"
    by (rule loop_ConsE)
  have q1: "syncQueue s1 = filter (\<lambda>q. (sr_success result \<or> maxRetries (heap st x) \<le> retryCount (heap st x) + 1)
                                   \<longrightarrow> op_id (heap st q) \<noteq> op_id (heap st x)) (syncQueue st)"
    by (cases "sr_success result \<or> maxRetries (heap st x) \<le> retryCount (heap st x) + 1")
       (simp_all add: step_facts(3)[OF p])
  from Cons.IH[OF f] obtain P2 where "syncQueue st' = filter P2 (syncQueue s1)" by blast
  then have "syncQueue st' = filter (\<lambda>q. ((sr_success result \<or> maxRetries (heap st x) \<le> retryCount (heap st x) + 1)
                                   \<longrightarrow> op_id (heap st q) \<noteq> op_id (heap st x)) \<and> P2 q) (syncQueue st)"
    by (simp add: q1)
  then show ?case by blast
qed

lemma loop_below_max:
  assumes "fold (processOperation e) xs (st, []) = (st', new)"
    and "q \<in> set (syncQueue st')"
    and "q \<in> set xs \<or> retryCount (heap st q) < maxRetries (heap st q)"
  shows "retryCount (heap st' q) < maxRetries (heap st' q)"
  using assms
proof (induction xs arbitrary: st new)
  case Nil
  then show ?case by simp
next
  case (Cons x xs)
  from Cons.prems(1) obtain s1 result new' where
    p: "processOperation e x (st, []) = (s1, [result])"
    and f: "fold (processOperation e) xs (s1, []) = (st', new')" and n: "new = result # new'"
    by (rule loop_ConsE)
  from loop_queue[OF f] Cons.prems(2) have q1: "q \<in> set (syncQueue s1)" by auto
  have "q \<in> set xs \<or> retryCount (heap s1 q) < maxRetries (heap s1 q)"
  proof (cases "q = x")
    case True
    with q1 step_facts(2,3)[OF p] show ?thesis
      by (auto split: if_splits)
  next
    case False
    with Cons.prems(3) step_facts(2)[OF p] show ?thesis by auto
  qed
  with Cons.IH[OF f Cons.prems(2)] show ?case .
qed

lemma loop_removed:
  assumes "fold (processOperation e) xs (st, []) = (st', new)"
    and "q \<in> set (syncQueue st)" and "q \<notin> set (syncQueue st')"
  shows "\<exists>res \<in> set new. op_id (heap st (sr_operation res)) = op_id (heap st q)
           \<and> (sr_success res \<or> maxRetries (heap st' (sr_operation res)) \<le> retryCount (heap st' (sr_operation res)))"
  using assms
proof (induction xs arbitrary: st new)
  case Nil
  then show ?case by simp
next
  case (Cons x xs)
  from Cons.prems(1) obtain s1 result new' where
    p: "processOperation e x (st, []) = (s1, [result])"
    and f: "fold (processOperation e) xs (s1, []) = (st', new')" and n: "new = result # new'"
    by (rule loop_ConsE)
  have ids: "\<And>r. op_id (heap s1 r) = op_id (heap st r)"
    using loop_fields(1)[of e "[x]" st s1 "[result]"] p by simp
  show ?case
  proof (cases "q \<in> set (syncQueue s1)")
    case True
    from Cons.IH[OF f True Cons.prems(3)] obtain res where
      "res \<in> set new'" "op_id (heap s1 (sr_operation res)) = op_id (heap s1 q)"
      "sr_success res \<or> maxRetries (heap st' (sr_operation res)) \<le> retryCount (heap st' (sr_operation res))"
      by blast
    then show ?thesis using n ids by auto
  next
    case False
    with Cons.prems(2) step_facts(3)[OF p] have
      rem: "sr_success result \<or> maxRetries (heap st x) \<le> retryCount (heap st x) + 1"
      and same: "op_id (heap st q) = op_id (heap st x)"
      by (auto split: if_splits)
    have "sr_success result \<or> maxRetries (heap st' x) \<le> retryCount (heap st' x)"
    proof (cases "sr_success result")
      case True
      then show ?thesis by simp
    next
      case False
      with rem have m: "maxRetries (heap st x) \<le> retryCount (heap st x) + 1" by simp
      from False step_facts(2)[OF p] have "retryCount (heap s1 x) = retryCount (heap st x) + 1" by simp
      moreover from loop_heap[OF f, of x] have "retryCount (heap s1 x) \<le> retryCount (heap st' x)" by simp
      moreover have "maxRetries (heap st' x) = maxRetries (heap st x)"
        using loop_fields(2)[OF Cons.prems(1)] .
      ultimately show ?thesis using m by simp
    qed
    with same step_facts(1)[OF p] n show ?thesis by auto
  qed
qed

lemma performSync_loop:
  assumes "\<not> syncInProgress st"
  shows "\<exists>st2 rs. fold (processOperation e) (sortedQueue st) (st\<lparr>syncInProgress := True\<rparr>, []) = (st2, rs)
            \<and> performSync e st = (st2\<lparr>syncInProgress := False\<rparr>, rs)"
proof (cases "syncQueue st = []")
  case True
  with assms show ?thesis by (simp add: performSync_def sortedQueue_def)
next
  case False
  have sq: "sortedQueue (st\<lparr>syncInProgress := True\<rparr>) = sortedQueue st" by (simp add: sortedQueue_def)
  obtain st2 rs where "fold (processOperation e) (sortedQueue st) (st\<lparr>syncInProgress := True\<rparr>, []) = (st2, rs)"
    by (cases "fold (processOperation e) (sortedQueue st) (st\<lparr>syncInProgress := True\<rparr>, [])")
  with False assms sq show ?thesis by (simp add: performSync_def Let_def)
qed

section \<open>Evaluating concrete runs\<close>

lemmas enqueue_defs = queueOrderCreation_def queuePayment_def queueUserPreferencesUpdate_def
  queueCartUpdate_def queueTicketUpdate_def addOperation_def initialManager_def Let_def
  scheduleSync_def blankOperation_def storePendingOperation_def addFailedRequest_def emptyStorage_def

lemmas drain_defs = performSync_def sortedQueue_def compareOps_def processOperation_def
  executeOperation_def sendRequest_def receiveResponse_def response_ok_def failed_result_def
  http_error_message_def settle_def remove_from_queue_def notifyApp_def removePendingOperation_def
  updatePendingOperation_def find_request_def getFailedRequests_def removeFailedRequest_def
  delete_failed_def updateFailedRequest_def get_failed_entry_def retryCount_only_def
  retryDelays_def js_index_def server_always_def

lemmas handler_defs = handleSuccessfulOperation_def handleOrder_def handlePayment_def
  get_order_def push_payment_def setUserPreference_def addToOfflineCart_def

lemma digit_char_simps:
  "digit_char 0 = CHR ''0''" "digit_char 1 = CHR ''1''" "digit_char 2 = CHR ''2''"
  "digit_char 3 = CHR ''3''" "digit_char 4 = CHR ''4''" "digit_char 5 = CHR ''5''"
  "digit_char 6 = CHR ''6''" "digit_char 7 = CHR ''7''" "digit_char 8 = CHR ''8''"
  "digit_char 9 = CHR ''9''" "digit_char (Suc 0) = CHR ''1''"
  by code_simp+

lemmas string_defs = string_of_int_def string_of_nat.simps digit_char_simps starts_with_def

lemmas loop_defs = run_def performSync_call_def next_iteration_def fetch_settles_def
  handleOffline_def handleOnline_def

section \<open>The order of a drain pass\<close>




section \<open>Retrying\<close>

text \<open>A failed attempt that leaves the counter below \<open>maxRetries\<close>, whatever the failure
  was: a rejected \<^verbatim>\<open>fetch\<close> or any status outside 200..299.\<close>

lemma receive_not_ok:
  assumes "(\<exists>msg. res = Rejected msg)
           \<or> (\<exists>status txt b. res = Responded status txt b \<and> \<not> response_ok status)"
  shows "\<exists>result. receiveResponse e r res st = (result, st) \<and> \<not> sr_success result"
  using assms by (auto simp: receiveResponse_def failed_result_def)

lemma failed_attempt:
  assumes "fetch e (length (sent st)) (heap st r) = res"
    and "(\<exists>msg. res = Rejected msg)
         \<or> (\<exists>status txt b. res = Responded status txt b \<and> \<not> response_ok status)"
    and "0 \<le> retryCount (heap st r)"
  shows "case processOperation e r (st, rs) of (st', rs') \<Rightarrow>
           retryCount (heap st' r) = retryCount (heap st r) + 1
         \<and> (if retryCount (heap st r) + 1 < maxRetries (heap st r)
            then timers st' = timers st @ [retryDelays ! nat (min (retryCount (heap st r)) 4)]
               \<and> syncQueue st' = syncQueue st
               \<and> dispatched st' = dispatched st
            else timers st' = timers st
               \<and> syncQueue st' = filter (\<lambda>q. op_id (heap st q) \<noteq> op_id (heap st r)) (syncQueue st)
               \<and> (\<exists>err. dispatched st' = dispatched st
                      @ [SYNC_FAILED ((heap st r)\<lparr>retryCount := retryCount (heap st r) + 1\<rparr>) err]))"
proof -
  let ?st1 = "st\<lparr>sent := sent st @ [heap st r]\<rparr>"
  from receive_not_ok[OF assms(2), of e r ?st1] obtain result where
    rr: "receiveResponse e r res ?st1 = (result, ?st1)" and nf: "\<not> sr_success result"
    by blast
  have ex: "executeOperation e r st = (result, ?st1)"
    using assms(1) rr by (simp add: executeOperation_def sendRequest_def)
  have po: "processOperation e r (st, rs) = (settle r result ?st1, rs @ [result])"
    by (simp add: processOperation_def ex)
  have idx: "js_index retryDelays (min (retryCount (heap st r)) 4)
             = Some (retryDelays ! nat (min (retryCount (heap st r)) 4))"
    using assms(3) by (simp add: js_index_def retryDelays_def)
  show ?thesis
  proof (cases "retryCount (heap st r) + 1 < maxRetries (heap st r)")
    case True
    then show ?thesis using nf idx
      by (simp add: po settle_heap settle_timers settle_syncQueue settle_dispatched)
  next
    case False
    then show ?thesis using nf
      by (simp add: po settle_heap settle_timers settle_syncQueue settle_dispatched)
  qed
qed




text \<open>A client error takes the same path.\<close>

lemma client_error_retried:
  assumes "fetch e (length (sent st)) (heap st r) = Responded code txt b"
    and "400 \<le> code" and "code \<le> 499"
    and "0 \<le> retryCount (heap st r)"
    and "retryCount (heap st r) + 1 < maxRetries (heap st r)"
  shows "case processOperation e r (st, rs) of (st', rs') \<Rightarrow>
           retryCount (heap st' r) = retryCount (heap st r) + 1
         \<and> timers st' = timers st @ [retryDelays ! nat (min (retryCount (heap st r)) 4)]
         \<and> syncQueue st' = syncQueue st
         \<and> dispatched st' = dispatched st"
proof -
  from assms(2) have "\<not> response_ok code" by (simp add: response_ok_def)
  then have nok: "(\<exists>msg. Responded code txt b = Rejected msg)
         \<or> (\<exists>status' txt' b'. Responded code txt b = Responded status' txt' b' \<and> \<not> response_ok status')"
    by simp
  from failed_attempt[OF assms(1) nok assms(4), of rs] assms(5)
  show ?thesis by (simp split: prod.splits)
qed

text \<open>
  C1 at a fresh order creation answered with 404 Not Found. The pass treats the 404 like any
  other failure: the operation stays queued with \<open>retryCount = 1\<close>, a retry is scheduled after
  1000 ms and no \<^verbatim>\<open>SYNC_FAILED\<close> event is dispatched. \<^verbatim>\<open>SyncUtils.shouldRetry\<close>
  answers \<open>False\<close> for the same operation and error.
\<close>

theorem performSync_retries_404:
  "(case performSync (server_always 404 ''Not Found'') order_queued of
      (st', rs) \<Rightarrow>
        syncQueue order_queued = [0] \<and> retryCount (heap order_queued 0) = 0
        \<and> map sr_error rs = [Some ''HTTP 404: Not Found'']
        \<and> syncQueue st' = [0] \<and> retryCount (heap st' 0) = 1
        \<and> timers st' = timers order_queued @ [1000] \<and> dispatched st' = []
        \<and> sent st' = [heap order_queued 0])
   \<and> shouldRetry (heap order_queued 0) ''HTTP 404: Not Found'' = False"
  by (simp add: order_queued_def enqueue_defs drain_defs shouldRetry_def string_defs)

section \<open>Leaving the queue\<close>

text \<open>
  The queue in memory over one pass that runs in one piece. The pass sends one request per
  queued operation, whatever its counters, and only removes from the queue. Every operation
  that stays has \<open>retryCount < maxRetries\<close>. An operation leaves only together with an
  attempt on an operation of its id that succeeded or brought the counter to \<open>maxRetries\<close>.
\<close>

lemma drain_pass_removal:
  assumes "\<not> syncInProgress st"
  shows "case performSync e st of (st', rs) \<Rightarrow>
           length (sent st') = length (sent st) + length (syncQueue st)
         \<and> (\<exists>P. syncQueue st' = filter P (syncQueue st))
         \<and> (\<forall>q \<in> set (syncQueue st'). retryCount (heap st' q) < maxRetries (heap st' q))
         \<and> (\<forall>q \<in> set (syncQueue st). q \<notin> set (syncQueue st') \<longrightarrow>
               (\<exists>res \<in> set rs. op_id (heap st (sr_operation res)) = op_id (heap st q)
                  \<and> (sr_success res
                      \<or> maxRetries (heap st' (sr_operation res)) \<le> retryCount (heap st' (sr_operation res)))))
         \<and> (case performSync e2 st' of (st'', rs2) \<Rightarrow>
               \<forall>res \<in> set rs2. retryCount (heap st' (sr_operation res)) < maxRetries (heap st' (sr_operation res)))"
proof -
  let ?st0 = "st\<lparr>syncInProgress := True\<rparr>"
  from performSync_loop[OF assms, of e] obtain st2 rs where
    f: "fold (processOperation e) (sortedQueue st) (?st0, []) = (st2, rs)"
    and p: "performSync e st = (st2\<lparr>syncInProgress := False\<rparr>, rs)"
    by blast
  let ?st' = "st2\<lparr>syncInProgress := False\<rparr>"
  have len: "length (sent st2) = length (sent st) + length (syncQueue st)"
  proof -
    have "length (map (\<lambda>o1. o1\<lparr>retryCount := 0\<rparr>) (sent st2)) =
          length (map (\<lambda>o1. o1\<lparr>retryCount := 0\<rparr>) (sent ?st0)
                  @ map (\<lambda>r. (heap ?st0 r)\<lparr>retryCount := 0\<rparr>) (sortedQueue st))"
      using loop_sent[OF f] by simp
    then show ?thesis by (simp add: sortedQueue_def length_js_sort)
  qed
  from loop_queue[OF f] obtain P where sub: "syncQueue st2 = filter P (syncQueue st)" by auto
  have below: "\<forall>q \<in> set (syncQueue st2). retryCount (heap st2 q) < maxRetries (heap st2 q)"
  proof
    fix q assume q: "q \<in> set (syncQueue st2)"
    with sub have "q \<in> set (sortedQueue st)" by (simp add: sortedQueue_def set_js_sort)
    with loop_below_max[OF f q] show "retryCount (heap st2 q) < maxRetries (heap st2 q)" by simp
  qed
  have removed: "\<forall>q \<in> set (syncQueue st). q \<notin> set (syncQueue st2) \<longrightarrow>
               (\<exists>res \<in> set rs. op_id (heap st (sr_operation res)) = op_id (heap st q)
                  \<and> (sr_success res
                      \<or> maxRetries (heap st2 (sr_operation res)) \<le> retryCount (heap st2 (sr_operation res))))"
  proof (intro ballI impI)
    fix q assume "q \<in> set (syncQueue st)" "q \<notin> set (syncQueue st2)"
    with loop_removed[OF f, of q] show "\<exists>res \<in> set rs. op_id (heap st (sr_operation res)) = op_id (heap st q)
                  \<and> (sr_success res
                      \<or> maxRetries (heap st2 (sr_operation res)) \<le> retryCount (heap st2 (sr_operation res)))"
      by simp
  qed
  have later: "case performSync e2 ?st' of (st'', rs2) \<Rightarrow>
               \<forall>res \<in> set rs2. retryCount (heap st2 (sr_operation res)) < maxRetries (heap st2 (sr_operation res))"
  proof -
    have np: "\<not> syncInProgress ?st'" by simp
    from performSync_loop[OF np, of e2] obtain st3 rs2 where
      f2: "fold (processOperation e2) (sortedQueue ?st') (?st'\<lparr>syncInProgress := True\<rparr>, []) = (st3, rs2)"
      and p2: "performSync e2 ?st' = (st3\<lparr>syncInProgress := False\<rparr>, rs2)"
      by blast
    have m: "map sr_operation rs2 = sortedQueue ?st'" by (rule loop_results[OF f2])
    have "\<forall>res \<in> set rs2. retryCount (heap st2 (sr_operation res)) < maxRetries (heap st2 (sr_operation res))"
    proof
      fix res assume "res \<in> set rs2"
      then have "sr_operation res \<in> set (map sr_operation rs2)" by simp
      with m have "sr_operation res \<in> set (syncQueue st2)" by (simp add: sortedQueue_def set_js_sort)
      with below show "retryCount (heap st2 (sr_operation res)) < maxRetries (heap st2 (sr_operation res))"
        by blast
    qed
    then show ?thesis by (simp add: p2)
  qed
  show ?thesis
    using len sub below removed later by (simp add: p) blast
qed

lemma two_pass_run:
  "\<not> syncInProgress three_queued
   \<and> (case performSync (server_always 500 ''Internal Server Error'') three_queued of
        (st', rs) \<Rightarrow> syncQueue st' = [0, 1, 2] \<and> map (retryCount \<circ> heap st') [0, 1, 2] = [1, 1, 1]
          \<and> length (sent st') = 3
          \<and> (case performSync (server_always 500 ''Internal Server Error'') st' of
                (st'', rs2) \<Rightarrow> syncQueue st'' = [1, 2] \<and> map (retryCount \<circ> heap st'') [0, 1, 2] = [2, 2, 2]
                   \<and> map (maxRetries \<circ> heap st'') [0, 1, 2] = [2, 5, 5]
                   \<and> length (sent st'') = 6 \<and> length (dispatched st'') = 1))"
  by (simp add: three_queued_def enqueue_defs drain_defs string_defs)

text \<open>The pass does not look at the counters before an attempt: an operation enqueued with
  \<open>maxRetries = 0\<close> is sent.\<close>

lemma attempt_at_maxRetries:
  "syncQueue zero_retry_queued = [0]
   \<and> maxRetries (heap zero_retry_queued 0) \<le> retryCount (heap zero_retry_queued 0)
   \<and> \<not> syncInProgress zero_retry_queued
   \<and> (case performSync (server_always 200 ''OK'') zero_retry_queued of
        (st', rs) \<Rightarrow> sent st' = [heap zero_retry_queued 0] \<and> map sr_success rs = [True])"
  by (simp add: zero_retry_queued_def enqueue_defs drain_defs handler_defs)

text \<open>An operation whose attempt succeeded is no longer in the queue in memory.\<close>

lemma delivered_leaves_queue:
  "sr_success res \<Longrightarrow> r \<notin> set (syncQueue (settle r res st))"
  by (simp add: settle_syncQueue)

lemma to_upper_POST: "map to_upper ''POST'' = ''POST''"
  by code_simp

lemma inferAction_POST: "inferAction ''POST'' = Create"
  by code_simp

lemma infer_order_create:
  "inferOperationType ''/api/orders/create'' = Order \<and> inferPriority ''/api/orders/create'' = High"
  by (simp add: inferOperationType_def inferPriority_def starts_with_def)

text \<open>
  C2 at a fresh order creation that the server accepts. The pass sends it, gets 200 and
  takes it out of the queue in memory; \<^verbatim>\<open>removePendingOperation\<close> finds its record and
  calls \<^verbatim>\<open>removeFailedRequest\<close>, which deletes under a string key, so the record with
  key 1 is still in the store. When the page is loaded again the record is converted back
  into a queued operation, the next pass sends the same order creation a second time, and
  the record is still there afterwards.
\<close>

theorem delivered_operation_requeued:
  "(case performSync (server_always 200 ''OK'') order_queued of
      (st1, rs1) \<Rightarrow>
        map sr_success rs1 = [True] \<and> syncQueue st1 = []
        \<and> map endpoint (sent st1) = [''/api/orders/create'']
        \<and> map (\<lambda>(k, r). (k, fr_url r, fr_timestamp r)) (getFailedRequests (storage st1))
            = [(1, ''/api/orders/create'', 1000)]
        \<and> map (\<lambda>r. (endpoint (heap (reload st1) r), http_method (heap (reload st1) r),
                       opdata (heap (reload st1) r))) (syncQueue (reload st1))
            = [(''/api/orders/create'', ''POST'', opdata (heap order_queued 0))]
        \<and> (case performSync (server_always 200 ''OK'') (reload st1) of
              (st2, rs2) \<Rightarrow>
                map sr_success rs2 = [True]
                \<and> map endpoint (sent st2) = [''/api/orders/create'']
                \<and> map fst (getFailedRequests (storage st2)) = [1]))"
  by (simp add: order_queued_def reload_def loadPendingOperations_def convertFailedRequestToOperation_def
      enqueue_defs drain_defs handler_defs inferAction_POST infer_order_create)

section \<open>One drain at a time\<close>

text \<open>While the flag is set, a call of \<^verbatim>\<open>performSync\<close> returns at once and sends nothing.\<close>

lemma performSync_guard: "syncInProgress st \<Longrightarrow> performSync e st = (st, [])"
  by (simp add: performSync_def)

lemma forcSync_guard: "syncInProgress (manager rt) \<Longrightarrow> step e ForceSync rt = rt"
  by (simp add: performSync_call_def)

text \<open>
  The two views of a pass agree: when nothing else is delivered between the call of
  \<^verbatim>\<open>forcSync\<close> and the settling of the last request, the event loop leaves the manager
  as \<^verbatim>\<open>performSync\<close> run in one piece does.
\<close>

lemma settle_run:
  assumes "sendRequest e x st = (res, st_s)"
  shows "fold (step e) (replicate (Suc (length xs)) (FetchSettles 0))
           \<lparr>manager = st_s, drains = [\<lparr>in_flight = (x, res), remaining = xs, results = rs\<rparr>]\<rparr>
         = \<lparr>manager = (fst (fold (processOperation e) (x # xs) (st, rs)))\<lparr>syncInProgress := False\<rparr>,
            drains = []\<rparr>"
  using assms
proof (induction xs arbitrary: x st rs res st_s)
  case Nil
  obtain result st1 where rr: "receiveResponse e x res st_s = (result, st1)"
    by (cases "receiveResponse e x res st_s")
  have po: "processOperation e x (st, rs) = (settle x result st1, rs @ [result])"
    using Nil rr by (simp add: processOperation_def executeOperation_def)
  show ?case
    by (simp add: fetch_settles_def rr next_iteration_def po)
next
  case (Cons y ys)
  obtain result st1 where rr: "receiveResponse e x res st_s = (result, st1)"
    by (cases "receiveResponse e x res st_s")
  have po: "processOperation e x (st, rs) = (settle x result st1, rs @ [result])"
    using Cons.prems rr by (simp add: processOperation_def executeOperation_def)
  obtain res' st_s' where sr: "sendRequest e y (settle x result st1) = (res', st_s')"
    by (cases "sendRequest e y (settle x result st1)")
  have one: "fetch_settles e 0 \<lparr>manager = st_s, drains = [\<lparr>in_flight = (x, res), remaining = y # ys, results = rs\<rparr>]\<rparr>
           = \<lparr>manager = st_s', drains = [\<lparr>in_flight = (y, res'), remaining = ys, results = rs @ [result]\<rparr>]\<rparr>"
    by (simp add: fetch_settles_def rr next_iteration_def sr)
  have "fold (step e) (replicate (Suc (length (y # ys))) (FetchSettles 0))
           \<lparr>manager = st_s, drains = [\<lparr>in_flight = (x, res), remaining = y # ys, results = rs\<rparr>]\<rparr>
        = fold (step e) (replicate (Suc (length ys)) (FetchSettles 0))
           \<lparr>manager = st_s', drains = [\<lparr>in_flight = (y, res'), remaining = ys, results = rs @ [result]\<rparr>]\<rparr>"
    using one by simp
  also have "\<dots> = \<lparr>manager = (fst (fold (processOperation e) (y # ys) (settle x result st1, rs @ [result])))
                         \<lparr>syncInProgress := False\<rparr>, drains = []\<rparr>"
    by (rule Cons.IH[OF sr])
  finally show ?case by (simp add: po)
qed

lemma uninterrupted_run:
  assumes "online st" and "\<not> syncInProgress st"
  shows "run e (ForceSync # replicate (length (syncQueue st)) (FetchSettles 0)) \<lparr>manager = st, drains = []\<rparr>
         = \<lparr>manager = fst (performSync e st), drains = []\<rparr>"
proof (cases "sortedQueue (st\<lparr>syncInProgress := True\<rparr>)")
  case Nil
  then have "length (sortedQueue (st\<lparr>syncInProgress := True\<rparr>)) = 0" by simp
  then have "syncQueue st = []" by (simp add: sortedQueue_def length_js_sort)
  then show ?thesis using assms by (simp add: run_def performSync_call_def performSync_def)
next
  case (Cons x xs)
  let ?st1 = "st\<lparr>syncInProgress := True\<rparr>"
  from Cons have "length (sortedQueue ?st1) = Suc (length xs)" by simp
  then have len: "length (syncQueue st) = Suc (length xs)" by (simp add: sortedQueue_def length_js_sort)
  then have ne: "syncQueue st \<noteq> []" by auto
  obtain res st_s where sr: "sendRequest e x ?st1 = (res, st_s)" by (cases "sendRequest e x ?st1")
  have call: "performSync_call e \<lparr>manager = st, drains = []\<rparr>
              = \<lparr>manager = st_s, drains = [\<lparr>in_flight = (x, res), remaining = xs, results = []\<rparr>]\<rparr>"
    using assms ne Cons sr by (simp add: performSync_call_def Let_def next_iteration_def)
  have ps: "performSync e st =
            ((fst (fold (processOperation e) (x # xs) (?st1, [])))\<lparr>syncInProgress := False\<rparr>,
             snd (fold (processOperation e) (x # xs) (?st1, [])))"
    using assms ne Cons by (simp add: performSync_def Let_def split: prod.splits)
  have "run e (ForceSync # replicate (length (syncQueue st)) (FetchSettles 0)) \<lparr>manager = st, drains = []\<rparr>
        = fold (step e) (replicate (Suc (length xs)) (FetchSettles 0))
            \<lparr>manager = st_s, drains = [\<lparr>in_flight = (x, res), remaining = xs, results = []\<rparr>]\<rparr>"
    using assms call len by (simp add: run_def)
  also have "\<dots> = \<lparr>manager = (fst (fold (processOperation e) (x # xs) (?st1, [])))\<lparr>syncInProgress := False\<rparr>,
                      drains = []\<rparr>"
    by (rule settle_run[OF sr])
  finally show ?thesis by (simp add: ps)
qed

text \<open>
  C3 at a fresh order creation with the network going away and coming back while the first
  request is outstanding. After the first \<^verbatim>\<open>forcSync\<close> one drain is suspended and the flag
  is set. \<^verbatim>\<open>handleOffline\<close> clears the flag, so the second \<^verbatim>\<open>forcSync\<close> starts a
  second drain beside the first and sends the same operation again. When both requests have
  settled, two \<^verbatim>\<open>SYNC_SUCCESS\<close> events have been dispatched for the one operation.
\<close>

theorem second_drain_sends:
  "(let rt = run (server_always 200 ''OK'') [ForceSync] \<lparr>manager = order_queued, drains = []\<rparr>
    in syncInProgress (manager rt) \<and> length (drains rt) = 1
       \<and> map endpoint (sent (manager rt)) = [''/api/orders/create''])
   \<and> (let rt = run (server_always 200 ''OK'') [ForceSync, GoOffline, GoOnline, ForceSync]
                 \<lparr>manager = order_queued, drains = []\<rparr>
      in length (drains rt) = 2
         \<and> map endpoint (sent (manager rt)) = [''/api/orders/create'', ''/api/orders/create'']
         \<and> map op_id (sent (manager rt)) = [op_id (heap order_queued 0), op_id (heap order_queued 0)])
   \<and> (let rt = run (server_always 200 ''OK'')
                 [ForceSync, GoOffline, GoOnline, ForceSync, FetchSettles 0, FetchSettles 0]
                 \<lparr>manager = order_queued, drains = []\<rparr>
      in length (dispatched (manager rt)) = 2 \<and> syncQueue (manager rt) = [] \<and> drains rt = [])"
  by (simp add: order_queued_def enqueue_defs drain_defs handler_defs loop_defs)

section \<open>The success handler\<close>

text \<open>What the handler does for the types it knows: the response to an order creation
  populates the order cache and the ticket cache, a preference update overwrites the
  preferences it names.\<close>

lemma order_create_populates:
  "(let s = handleSuccessfulOperation 5000 ''r'' (blankOperation\<lparr>optype := Order, action := Create\<rparr>)
              (JObj [(''order'', JObj [(''id'', JStr ''o1''), (''orderNumber'', JStr ''A-1'')]),
                     (''tickets'', JArr [JObj [(''id'', JStr ''t1'')], JObj [(''id'', JStr ''t2'')]])])
              emptyStorage
    in map fst (orders s) = [KStr ''o1''] \<and> map fst (tickets s) = [KStr ''t1'', KStr ''t2'']
       \<and> map (\<lambda>(k, d). (cachedAt d, syncStatus d)) (orders s) = [(5000, Synced)])"
  by (simp add: handler_defs blankOperation_def emptyStorage_def cacheOrder_def cacheTicket_def
      put_order_def put_doc_def orderNumber_taken_def make_stored_def strip_store_fields_def)

lemma preference_update_overwrites:
  "(let s0 = setUserPreference 1000 ''theme'' (JStr ''light'') emptyStorage;
        s = handleSuccessfulOperation 5000 ''r''
              (blankOperation\<lparr>optype := UserPreference, action := Update,
                 opdata := JObj [(''theme'', JStr ''dark''), (''language'', JStr ''sw'')]\<rparr>)
              (JObj []) s0
    in getUserPreference ''theme'' s = Some (JStr ''dark'')
       \<and> getUserPreference ''language'' s = Some (JStr ''sw''))"
  by (simp add: handler_defs blankOperation_def emptyStorage_def getUserPreference_def)

text \<open>
  C8 at any operation of type \<^verbatim>\<open>ticket\<close>: the handler's \<^verbatim>\<open>switch\<close> has no case for
  it, so whatever the response, the store is left as it was. The ticket update that
  \<^verbatim>\<open>queueTicketUpdate\<close> enqueues is sent, succeeds and leaves the queue, and the ticket
  the server returned is cached nowhere.
\<close>

theorem handleSuccessfulOperation_ignores_ticket:
  "handleSuccessfulOperation now rnd (operation\<lparr>optype := Ticket\<rparr>) response s = s
   \<and> (let st = queueTicketUpdate 1000 ''r'' ''t1'' (JObj [(''status'', JStr ''used'')]) initialManager;
          e = \<lparr>fetch = (\<lambda>n operation. Responded 200 ''OK''
                          (Inr (JObj [(''ticket'', JObj [(''id'', JStr ''t1''), (''status'', JStr ''used'')])]))),
               clock = (\<lambda>n. 2000), random = (\<lambda>n. ''r'')\<rparr>
      in case performSync e st of
           (st', rs) \<Rightarrow> map sr_success rs = [True] \<and> syncQueue st' = []
              \<and> tickets (storage st') = [] \<and> orders (storage st') = [] \<and> events (storage st') = []
              \<and> cartItems (storage st') = [] \<and> userPreferences (storage st') = [])"
  by (simp add: enqueue_defs drain_defs handler_defs)

section \<open>The cache strategy engine and the GET requests\<close>









section \<open>Reminders\<close>

text \<open>No wake of the runtime changes the stored reminders.\<close>

lemma wakes_scheduled: "scheduled (wakes ws st) = scheduled st"
proof (induction ws arbitrary: st)
  case Nil
  then show ?case by simp
next
  case (Cons w ws)
  obtain now k where w: "w = (now, k)" by (cases w)
  have "scheduled (on_wake now k st) = scheduled st"
  proof (cases k)
    case (Push n)
    then show ?thesis by (cases n) simp_all
  qed simp_all
  then show ?case by (simp add: w Cons.IH)
qed

text \<open>
  C9 at a reminder due in 10 minutes. 15 minutes later the page comes to the foreground, a
  background sync runs, a maintenance interval fires and a request is intercepted: no
  notification has been shown and the reminder is still stored.
\<close>

theorem reminder_never_fires:
  "map (\<lambda>(k, n). (k, sn_reminderTime n)) (scheduled reminder_set) = [(''reminder-e1-1800000'', 600000)]
   \<and> (let st = wakes [(900000, VisibilityChange), (900000, Sync ''background-sync''),
                       (900000, MaintenanceInterval), (900000, Fetch)] reminder_set
      in shown st = [] \<and> scheduled st = scheduled reminder_set)"
  by (simp add: reminder_set_def scheduleEventReminder_def storeScheduledNotification_def string_defs)

end
